theory Spec2Isabelle
  imports Complex_Main
begin

section \<open>JavaScript values, strings and numbers\<close>

text \<open>
  A number cell is not-a-number, an infinity with its sign, or a finite number.
  A finite number is given by its sign and its shortest decimal: the digits \<open>m\<close> and
  the power of ten \<open>e\<close> of the shortest decimal \<open>m * 10 ^ e\<close> that reads back as the
  number, which is what \<open>String\<close> prints it from.  In this normal form \<open>m\<close> is not a
  multiple of ten, and zero is \<open>DFin False 0 0\<close>.
\<close>

datatype jsdouble = DNaN | DInf bool | DFin bool nat int

text \<open>
  The pipeline works on tabular records: objects that map column names to scalar
  values.  A scalar is \<open>null\<close>, \<open>undefined\<close>, a boolean, a number or a string.
  Reading a record can also give a member that every object inherits
  (\<open>JInherited\<close>, by its name).  Strings are ASCII.
\<close>

datatype jsval =
  JNull | JUndefined | JBool bool | JNum jsdouble | JStr string | JInherited string

text \<open>The whole number \<open>n\<close>, in normal form when \<open>n\<close> is not a multiple of ten.\<close>

abbreviation JInt :: "nat \<Rightarrow> jsval" where
  "JInt n \<equiv> JNum (DFin False n 0)"

text \<open>A thrown \<open>Error\<close> with its \<open>message\<close>.\<close>

datatype error = Error (message: string)

subsection \<open>String operations\<close>

definition toLowerChar :: "char \<Rightarrow> char" where
  "toLowerChar c =
     (case map_of (zip ''ABCDEFGHIJKLMNOPQRSTUVWXYZ'' ''abcdefghijklmnopqrstuvwxyz'') c of
        None \<Rightarrow> c | Some d \<Rightarrow> d)"

definition toUpperChar :: "char \<Rightarrow> char" where
  "toUpperChar c =
     (case map_of (zip ''abcdefghijklmnopqrstuvwxyz'' ''ABCDEFGHIJKLMNOPQRSTUVWXYZ'') c of
        None \<Rightarrow> c | Some d \<Rightarrow> d)"

definition toLowerCase :: "string \<Rightarrow> string" where
  "toLowerCase s = map toLowerChar s"

definition toUpperCase :: "string \<Rightarrow> string" where
  "toUpperCase s = map toUpperChar s"

text \<open>\<open>s.startsWith(p)\<close>, \<open>s.includes(w)\<close> and \<open>s.replace(pat, rep)\<close> for a string pattern
  (the first occurrence only).\<close>

fun startsWith :: "string \<Rightarrow> string \<Rightarrow> bool" where
  "startsWith s [] = True"
| "startsWith [] (p # ps) = False"
| "startsWith (c # cs) (p # ps) = (c = p \<and> startsWith cs ps)"

fun strIncludes :: "string \<Rightarrow> string \<Rightarrow> bool" where
  "strIncludes [] w = (w = [])"
| "strIncludes (c # cs) w = (startsWith (c # cs) w \<or> strIncludes cs w)"

fun replaceFirst :: "string \<Rightarrow> string \<Rightarrow> string \<Rightarrow> string" where
  "replaceFirst [] pat rep = (if pat = [] then rep else [])"
| "replaceFirst (c # cs) pat rep =
     (if startsWith (c # cs) pat then rep @ drop (length pat) (c # cs)
      else c # replaceFirst cs pat rep)"

text \<open>White space as regular expressions, \<open>trim\<close> and the numeric conversions see it.\<close>

definition isWhite :: "char \<Rightarrow> bool" where
  "isWhite c = (c \<in> set [CHR '' '', CHR 0x09, CHR 0x0A, CHR 0x0B, CHR 0x0C, CHR 0x0D])"

definition trimStart :: "string \<Rightarrow> string" where
  "trimStart s = dropWhile isWhite s"

definition trim :: "string \<Rightarrow> string" where
  "trim s = rev (dropWhile isWhite (rev (dropWhile isWhite s)))"

definition isDigit :: "char \<Rightarrow> bool" where
  "isDigit c = (c \<in> set ''0123456789'')"

definition digitChar :: "nat \<Rightarrow> char" where
  "digitChar d = ''0123456789'' ! d"

function showNat :: "nat \<Rightarrow> string" where
  "showNat n = (if n < 10 then [digitChar n] else showNat (n div 10) @ [digitChar (n mod 10)])"
  by pat_completeness auto
termination
  by (relation "measure id") auto

declare showNat.simps [simp del]

definition digitValue :: "char \<Rightarrow> nat" where
  "digitValue c =
     (case map_of (zip ''0123456789abcdefABCDEF''
                     [0, 1, 2, 3, 4, 5, 6, 7, 8, 9, 10, 11, 12, 13, 14, 15, 10, 11, 12, 13, 14, 15]) c of
        None \<Rightarrow> 0 | Some d \<Rightarrow> d)"

definition radixValue :: "nat \<Rightarrow> string \<Rightarrow> nat" where
  "radixValue b ds = foldl (\<lambda>a c. b * a + digitValue c) 0 ds"

subsection \<open>Records and sets\<close>

text \<open>
  A record is a plain object: an association list of its own entries, in insertion
  order.  Reading a key that the record does not own gives the member of that name
  that every object inherits, when there is one, and \<open>undefined\<close> otherwise.
\<close>

type_synonym row = "(string \<times> jsval) list"

definition inheritedMembers :: "string list" where
  "inheritedMembers =
     [''constructor'', ''__defineGetter__'', ''__defineSetter__'', ''hasOwnProperty'',
      ''__lookupGetter__'', ''__lookupSetter__'', ''isPrototypeOf'', ''propertyIsEnumerable'',
      ''toString'', ''valueOf'', ''__proto__'', ''toLocaleString'']"

definition getProp :: "row \<Rightarrow> string \<Rightarrow> jsval" where
  "getProp r c =
     (case map_of r c of
        Some v \<Rightarrow> v
      | None \<Rightarrow> if c \<in> set inheritedMembers then JInherited c else JUndefined)"

text \<open>
  \<open>Object.keys\<close>: the keys that are array indices come first, in ascending numeric
  order, then the other keys in insertion order.  An array index is a decimal
  numeral without a leading zero, below \<open>2 ^ 32 - 1\<close>.
\<close>

definition isArrayIndex :: "string \<Rightarrow> bool" where
  "isArrayIndex k =
     (k \<noteq> [] \<and> list_all isDigit k \<and> (k = ''0'' \<or> hd k \<noteq> CHR ''0'') \<and>
      radixValue 10 k < 2 ^ 32 - 1)"

definition objectKeys :: "row \<Rightarrow> string list" where
  "objectKeys r =
     sort_key (radixValue 10) (filter isArrayIndex (map fst r)) @
     filter (\<lambda>k. \<not> isArrayIndex k) (map fst r)"

text \<open>
  \<open>new Set(values)\<close>: the values are added one by one, a value already present is
  skipped, and the set keeps insertion order.  Its \<open>size\<close> is the length of the list.
\<close>

fun setAdd :: "'a list \<Rightarrow> 'a list \<Rightarrow> 'a list" where
  "setAdd acc [] = acc"
| "setAdd acc (x # xs) = setAdd (if x \<in> set acc then acc else acc @ [x]) xs"

definition jsSet :: "'a list \<Rightarrow> 'a list" where
  "jsSet xs = setAdd [] xs"

subsection \<open>Conversion to strings\<close>

text \<open>Trailing zeros of the digits move into the power of ten.\<close>

function stripZeros :: "nat \<Rightarrow> int \<Rightarrow> nat \<times> int" where
  "stripZeros m e =
     (if m \<noteq> 0 \<and> m mod 10 = 0 then stripZeros (m div 10) (e + 1) else (m, e))"
  by pat_completeness auto
termination
  by (relation "measure fst") auto

declare stripZeros.simps [simp del]

definition showExponent :: "int \<Rightarrow> string" where
  "showExponent x = (if x < 0 then ''-'' else ''+'') @ showNat (nat \<bar>x\<bar>)"

text \<open>
  A positive number as \<open>String\<close> prints it: with \<open>k\<close> digits and the decimal point
  after the \<open>n\<close>-th digit, plain digits up to 21 places, a fraction down to six zeros
  after the point, and exponent notation beyond.
\<close>

definition showDecimal :: "nat \<Rightarrow> int \<Rightarrow> string" where
  "showDecimal m e =
     (case stripZeros m e of
        (digits, expo) \<Rightarrow>
          (let s = showNat digits;
               k = int (length s);
               n = k + expo
           in if k \<le> n \<and> n \<le> 21 then s @ replicate (nat (n - k)) (CHR ''0'')
              else if 0 < n \<and> n \<le> 21 then take (nat n) s @ ''.'' @ drop (nat n) s
              else if - 6 < n \<and> n \<le> 0 then ''0.'' @ replicate (nat (- n)) (CHR ''0'') @ s
              else if k = 1 then s @ ''e'' @ showExponent (n - 1)
              else take 1 s @ ''.'' @ drop 1 s @ ''e'' @ showExponent (n - 1)))"

definition numberToString :: "jsdouble \<Rightarrow> string" where
  "numberToString d =
     (case d of
        DNaN \<Rightarrow> ''NaN''
      | DInf negative \<Rightarrow> if negative then ''-Infinity'' else ''Infinity''
      | DFin negative m e \<Rightarrow>
          if m = 0 then ''0'' else (if negative then ''-'' else []) @ showDecimal m e)"

text \<open>
  \<open>String(val)\<close>.  An inherited member is a built-in function, printed as its
  native source text, except \<open>__proto__\<close>, which is the prototype object itself.
\<close>

fun jsString :: "jsval \<Rightarrow> string" where
  "jsString JNull = ''null''"
| "jsString JUndefined = ''undefined''"
| "jsString (JBool b) = (if b then ''true'' else ''false'')"
| "jsString (JNum d) = numberToString d"
| "jsString (JStr s) = s"
| "jsString (JInherited name) =
     (if name = ''__proto__'' then ''[object Object]''
      else ''function '' @ (if name = ''constructor'' then ''Object'' else name) @
           ''() { [native code] }'')"

subsection \<open>Numeric conversion\<close>

text \<open>
  The result of \<open>Number(val)\<close>: not-a-number, an infinity, or a finite value.
  Finite values are exact: rounding to double precision is not represented, the
  overflow to an infinity is.
\<close>

datatype jsnum = NaN | PInf | NInf | Fin real

definition jsNeg :: "jsnum \<Rightarrow> jsnum" where
  "jsNeg x = (case x of NaN \<Rightarrow> NaN | PInf \<Rightarrow> NInf | NInf \<Rightarrow> PInf | Fin r \<Rightarrow> Fin (- r))"

text \<open>The comparison \<open>a > b\<close> on numbers; any comparison with not-a-number is false.\<close>

definition jsGreater :: "jsnum \<Rightarrow> jsnum \<Rightarrow> bool" where
  "jsGreater a b =
     (case (a, b) of
        (Fin x, Fin y) \<Rightarrow> x > y
      | (PInf, Fin _) \<Rightarrow> True | (PInf, NInf) \<Rightarrow> True | (Fin _, NInf) \<Rightarrow> True
      | _ \<Rightarrow> False)"

text \<open>
  A value at or beyond the midpoint between the largest double and \<open>2 ^ 1024\<close> reads
  as an infinity.
\<close>

definition doubleOverflow :: "jsnum \<Rightarrow> jsnum" where
  "doubleOverflow x =
     (case x of
        Fin r \<Rightarrow>
          if r \<ge> 2 ^ 1024 - 2 ^ 970 then PInf
          else if r \<le> - (2 ^ 1024 - 2 ^ 970) then NInf
          else Fin r
      | _ \<Rightarrow> x)"

text \<open>
  The string numeric literal grammar of the language: an unsigned decimal literal is
  \<open>Infinity\<close>, or digits with an optional fraction, or a fraction alone, each with an
  optional exponent part; the whole string has to match.
\<close>

definition strUnsignedDecimalLiteral :: "string \<Rightarrow> jsnum" where
  "strUnsignedDecimalLiteral s =
     (if s = ''Infinity'' then PInf
      else
        (let ip = takeWhile isDigit s;
             r1 = dropWhile isDigit s;
             hasDot = startsWith r1 ''.'';
             fp = (if hasDot then takeWhile isDigit (tl r1) else []);
             r2 = (if hasDot then dropWhile isDigit (tl r1) else r1);
             mant = real (radixValue 10 ip) + real (radixValue 10 fp) / 10 ^ length fp
         in if ip = [] \<and> fp = [] then NaN
            else if r2 = [] then Fin mant
            else if hd r2 = CHR ''e'' \<or> hd r2 = CHR ''E'' then
              (let r3 = tl r2;
                   neg = startsWith r3 ''-'';
                   ds = (if startsWith r3 ''+'' \<or> neg then tl r3 else r3)
               in if ds \<noteq> [] \<and> list_all isDigit ds then
                    Fin (if neg then mant / 10 ^ radixValue 10 ds else mant * 10 ^ radixValue 10 ds)
                  else NaN)
            else NaN))"

definition strDecimalLiteral :: "string \<Rightarrow> jsnum" where
  "strDecimalLiteral s =
     (if startsWith s ''+'' then strUnsignedDecimalLiteral (tl s)
      else if startsWith s ''-'' then jsNeg (strUnsignedDecimalLiteral (tl s))
      else strUnsignedDecimalLiteral s)"

definition nonDecimalIntegerLiteral :: "string \<Rightarrow> jsnum" where
  "nonDecimalIntegerLiteral s =
     (let ds = drop 2 s in
      if ds = [] then NaN
      else if (startsWith s ''0x'' \<or> startsWith s ''0X'') \<and>
              list_all (\<lambda>c. c \<in> set ''0123456789abcdefABCDEF'') ds then Fin (real (radixValue 16 ds))
      else if (startsWith s ''0o'' \<or> startsWith s ''0O'') \<and>
              list_all (\<lambda>c. c \<in> set ''01234567'') ds then Fin (real (radixValue 8 ds))
      else if (startsWith s ''0b'' \<or> startsWith s ''0B'') \<and>
              list_all (\<lambda>c. c \<in> set ''01'') ds then Fin (real (radixValue 2 ds))
      else NaN)"

text \<open>
  \<open>Number(s)\<close> on a string: white space is trimmed, the empty string is zero, and a
  literal whose value is out of range is an infinity.
\<close>

definition stringToNumber :: "string \<Rightarrow> jsnum" where
  "stringToNumber s =
     (let t = trim s in
      if t = [] then Fin 0
      else if nonDecimalIntegerLiteral t \<noteq> NaN then doubleOverflow (nonDecimalIntegerLiteral t)
      else doubleOverflow (strDecimalLiteral t))"

text \<open>\<open>Number(val)\<close>; a function or an object is not a number.\<close>

fun jsNumber :: "jsval \<Rightarrow> jsnum" where
  "jsNumber JNull = Fin 0"
| "jsNumber JUndefined = NaN"
| "jsNumber (JBool b) = Fin (if b then 1 else 0)"
| "jsNumber (JNum d) =
     (case d of
        DNaN \<Rightarrow> NaN
      | DInf negative \<Rightarrow> if negative then NInf else PInf
      | DFin negative m e \<Rightarrow>
          Fin ((if negative then - 1 else 1) * real m *
               (if e \<ge> 0 then 10 ^ nat e else 1 / 10 ^ nat (- e))))"
| "jsNumber (JStr s) = stringToNumber s"
| "jsNumber (JInherited name) = NaN"

text \<open>
  \<open>isNaN(parseFloat(val))\<close>: \<open>parseFloat\<close> converts to a string, skips leading white
  space and reads the longest prefix that is a decimal literal; it fails exactly
  when there is no such prefix.
\<close>

definition parseFloatIsNaN :: "jsval \<Rightarrow> bool" where
  "parseFloatIsNaN v =
     (let t = trimStart (jsString v);
          u = (if startsWith t ''+'' \<or> startsWith t ''-'' then tl t else t)
      in \<not> (startsWith u ''Infinity'' \<or>
             (u \<noteq> [] \<and> isDigit (hd u)) \<or>
             (startsWith u ''.'' \<and> tl u \<noteq> [] \<and> isDigit (hd (tl u)))))"

section \<open>Column profiling (DataStructuringAgent)\<close>

datatype dataType = TString | TNumber | TBoolean | TDate | TEmail | TUrl | TPhone | TId | TUnknown

text \<open>The predicates of \<open>detectDataType\<close>, in the order of the source.\<close>

definition isBooleanLike :: "jsval \<Rightarrow> bool" where
  "isBooleanLike val =
     (toLowerCase (jsString val) \<in> set [''true'', ''false'', ''1'', ''0'', ''yes'', ''no''])"

definition isNumeric :: "jsval \<Rightarrow> bool" where
  "isNumeric val = (jsNumber val \<noteq> NaN \<and> \<not> parseFloatIsNaN val)"

text \<open>
  \<open>isValidEmail\<close>: one or more characters that are neither white space nor \<open>@\<close>, then
  \<open>@\<close>, then two such non-empty groups with a dot between them, up to the end.
\<close>

definition emailChar :: "char \<Rightarrow> bool" where
  "emailChar c = (\<not> isWhite c \<and> c \<noteq> CHR ''@'')"

definition isValidEmail :: "jsval \<Rightarrow> bool" where
  "isValidEmail val =
     (let s = jsString val;
          localPart = takeWhile emailChar s;
          r = dropWhile emailChar s
      in localPart \<noteq> [] \<and> startsWith r ''@'' \<and> list_all emailChar (tl r) \<and>
         CHR ''.'' \<in> set (butlast (tl (tl r))))"

text \<open>
  \<open>isValidPhone\<close>: after white space, dashes and parentheses are removed, an optional
  \<open>+\<close>, a digit from 1 to 9, and at most 15 further digits.
\<close>

definition isValidPhone :: "jsval \<Rightarrow> bool" where
  "isValidPhone val =
     (let s = filter (\<lambda>c. \<not> (isWhite c \<or> c \<in> set ''-()'')) (jsString val);
          t = (if startsWith s ''+'' then tl s else s)
      in t \<noteq> [] \<and> hd t \<in> set ''123456789'' \<and> list_all isDigit (tl t) \<and> length (tl t) \<le> 15)"

definition looksLikeID :: "jsval \<Rightarrow> bool" where
  "looksLikeID val =
     (let str = jsString val
      in (str \<noteq> [] \<and>
          list_all (\<lambda>c. c \<in> set ''ABCDEFGHIJKLMNOPQRSTUVWXYZabcdefghijklmnopqrstuvwxyz0123456789-_'') str) \<and>
         length str > 3)"

text \<open>
  \<open>detectDataType(values)\<close>.  The date test and the URL test call into
  libraries (a date parser and the platform URL parser), so \<open>isValidDate\<close> and
  \<open>isValidURL\<close> are parameters.
\<close>

definition detectDataType :: "(jsval \<Rightarrow> bool) \<Rightarrow> (jsval \<Rightarrow> bool) \<Rightarrow> jsval list \<Rightarrow> dataType" where
  "detectDataType isValidDate isValidURL values =
     (if length values = 0 then TUnknown
      else
        (let sample = take 10 values in
         if list_all isBooleanLike sample then TBoolean
         else if list_all isNumeric sample then TNumber
         else if list_all isValidDate sample then TDate
         else if list_all isValidEmail sample then TEmail
         else if list_all isValidURL sample then TUrl
         else if list_all isValidPhone sample then TPhone
         else if list_all looksLikeID sample then TId
         else TString))"

definition isInteger :: "jsnum \<Rightarrow> bool" where
  "isInteger n = (case n of Fin r \<Rightarrow> r \<in> \<int> | _ \<Rightarrow> False)"

definition nonNegative :: "jsnum \<Rightarrow> bool" where
  "nonNegative n = (jsGreater n (Fin 0) \<or> n = Fin 0)"

definition detectPatterns :: "string \<Rightarrow> jsval list \<Rightarrow> dataType \<Rightarrow> string list" where
  "detectPatterns columnName values dataType =
     (let lowerName = toLowerCase columnName in
      (if strIncludes lowerName ''id'' \<or> strIncludes lowerName ''key'' then [''identifier''] else []) @
      (if strIncludes lowerName ''name'' then [''name''] else []) @
      (if strIncludes lowerName ''email'' then [''email''] else []) @
      (if strIncludes lowerName ''phone'' \<or> strIncludes lowerName ''tel'' then [''phone''] else []) @
      (if strIncludes lowerName ''date'' \<or> strIncludes lowerName ''time'' then [''temporal''] else []) @
      (if strIncludes lowerName ''address'' then [''address''] else []) @
      (if strIncludes lowerName ''url'' \<or> strIncludes lowerName ''link'' then [''url''] else []) @
      (if dataType = TNumber then
         (let nums = map jsNumber values in
          (if list_all isInteger nums then [''integer''] else [''decimal'']) @
          (if list_all nonNegative nums then [''positive''] else []))
       else []) @
      (if dataType = TString then
         (let lengths = map (\<lambda>v. length (jsString v)) values in
          if list_all (\<lambda>l. l = hd lengths) lengths then [''fixed_length''] else [])
       else []))"

text \<open>
  \<open>calculateStatistics(values, dataType)\<close> fills an object that starts empty.  The
  numeric summary (minimum, maximum, mean, median, standard deviation) is
  floating-point arithmetic and is the parameter \<open>numberSummary\<close>; the length summary
  of strings is computed here.
\<close>

type_synonym statistics = "(string \<times> jsnum) list"

definition calculateStatistics ::
  "(jsnum list \<Rightarrow> statistics) \<Rightarrow> jsval list \<Rightarrow> dataType \<Rightarrow> statistics" where
  "calculateStatistics numberSummary values dataType =
     (if dataType = TNumber then numberSummary (map jsNumber values) else []) @
     (if dataType = TString then
        (let lengths = map (\<lambda>v. length (jsString v)) values in
         [(''minLength'', if lengths = [] then PInf else Fin (real (fold min lengths (hd lengths)))),
          (''maxLength'', if lengths = [] then NInf else Fin (real (fold max lengths (hd lengths)))),
          (''avgLength'',
             if lengths = [] then NaN else Fin (real (sum_list lengths) / real (length lengths)))])
      else [])"

text \<open>
  The type of a relationship is a string.  These four are the ones the agents
  themselves write.
\<close>

type_synonym relKind = string

abbreviation ForeignKey :: relKind where
  "ForeignKey \<equiv> ''foreign_key''"

abbreviation Hierarchical :: relKind where
  "Hierarchical \<equiv> ''hierarchical''"

abbreviation Temporal :: relKind where
  "Temporal \<equiv> ''temporal''"

abbreviation Semantic :: relKind where
  "Semantic \<equiv> ''semantic''"

text \<open>The name-based hints of a single column: a kind, a fixed confidence and a text.\<close>

record potentialRelationship =
  pr_type :: relKind
  pr_confidence :: real
  pr_description :: string

definition detectPotentialRelationships ::
  "string \<Rightarrow> jsval list \<Rightarrow> dataType \<Rightarrow> potentialRelationship list" where
  "detectPotentialRelationships columnName values dataType =
     (if strIncludes (toLowerCase columnName) ''id'' \<and> dataType = TString then
        [\<lparr> pr_type = ForeignKey, pr_confidence = 8 / 10,
            pr_description = ''Potential foreign key reference'' \<rparr>]
      else []) @
     (if strIncludes (toLowerCase columnName) ''parent'' \<or>
         strIncludes (toLowerCase columnName) ''child'' then
        [\<lparr> pr_type = Hierarchical, pr_confidence = 9 / 10,
            pr_description = ''Parent-child relationship'' \<rparr>]
      else []) @
     (if dataType = TDate \<or> strIncludes (toLowerCase columnName) ''date'' then
        [\<lparr> pr_type = Temporal, pr_confidence = 7 / 10,
            pr_description = ''Temporal relationship'' \<rparr>]
      else [])"

record columnProfile =
  cp_name :: string
  cp_dataType :: dataType
  cp_patterns :: "string list"
  cp_statistics :: statistics
  cp_potentialRelationships :: "potentialRelationship list"
  cp_nullCount :: nat
  cp_nullPercentage :: jsnum
  cp_uniqueValues :: nat
  cp_sampleValues :: "jsval list"

record profilerEnv =
  isValidDate :: "jsval \<Rightarrow> bool"
  isValidURL :: "jsval \<Rightarrow> bool"
  numberSummary :: "jsnum list \<Rightarrow> statistics"

text \<open>
  \<open>analyzeColumn(columnName, values)\<close>.  The percentage is \<open>nullCount / values.length\<close>
  times 100, which is not-a-number when \<open>values\<close> is empty.
\<close>

definition analyzeColumn :: "profilerEnv \<Rightarrow> string \<Rightarrow> jsval list \<Rightarrow> columnProfile" where
  "analyzeColumn env columnName values =
     (let nonNullValues =
            filter (\<lambda>val. val \<noteq> JNull \<and> val \<noteq> JUndefined \<and> val \<noteq> JStr []) values;
          nullCount = length values - length nonNullValues;
          dataType = detectDataType (isValidDate env) (isValidURL env) nonNullValues;
          patterns = detectPatterns columnName nonNullValues dataType;
          statistics = calculateStatistics (numberSummary env) nonNullValues dataType;
          potentialRelationships = detectPotentialRelationships columnName nonNullValues dataType
      in \<lparr> cp_name = columnName,
           cp_dataType = dataType,
           cp_patterns = patterns,
           cp_statistics = statistics,
           cp_potentialRelationships = potentialRelationships,
           cp_nullCount = nullCount,
           cp_nullPercentage =
             (if length values = 0 then NaN
              else Fin (real nullCount / real (length values) * 100)),
           cp_uniqueValues = length (jsSet nonNullValues),
           cp_sampleValues = take 5 nonNullValues \<rparr>)"

text \<open>
  \<open>analyzeDataStructure(data)\<close>: the sample is the first \<open>min(100, N)\<close> records, the
  columns are the keys of the first record, and each column is analysed on its
  sample entries that are neither \<open>null\<close> nor \<open>undefined\<close>.  The quality score of the
  source (floating-point averages over the profiles) is not part of the record here.
\<close>

record analysis =
  an_columns :: "string list"
  an_columnAnalysis :: "(string \<times> columnProfile) list"
  an_sampleSize :: nat
  an_totalRows :: nat

definition analyzeDataStructure :: "profilerEnv \<Rightarrow> row list \<Rightarrow> analysis" where
  "analyzeDataStructure env data =
     (let sampleSize = min 100 (length data);
          sample = take sampleSize data;
          columns = objectKeys (case sample of [] \<Rightarrow> [] | r # _ \<Rightarrow> r);
          columnAnalysis =
            map (\<lambda>column.
                   (column,
                    analyzeColumn env column
                      (filter (\<lambda>val. val \<noteq> JNull \<and> val \<noteq> JUndefined)
                         (map (\<lambda>row. getProp row column) sample))))
              columns
      in \<lparr> an_columns = columns,
           an_columnAnalysis = columnAnalysis,
           an_sampleSize = sampleSize,
           an_totalRows = length data \<rparr>)"

section \<open>Relationship detection and schema (DataStructuringAgent)\<close>

record relationship =
  rel_type :: relKind
  rel_source :: string
  rel_target :: string
  rel_confidence :: real
  rel_description :: string

text \<open>
  \<open>analyzeColumnRelationship(data, col1, col2)\<close>: the two value lists keep every
  entry that is not \<open>null\<close>; an absent key reads as \<open>undefined\<close> and stays in.
\<close>

definition analyzeColumnRelationship :: "row list \<Rightarrow> string \<Rightarrow> string \<Rightarrow> relationship option" where
  "analyzeColumnRelationship data col1 col2 =
     (let values1 = filter (\<lambda>v. v \<noteq> JNull) (map (\<lambda>r. getProp r col1) data);
          values2 = filter (\<lambda>v. v \<noteq> JNull) (map (\<lambda>r. getProp r col2) data);
          set1 = jsSet values1;
          set2 = jsSet values2;
          intersection = jsSet (filter (\<lambda>x. x \<in> set set2) set1)
      in if length intersection > 0 then
           (let overlap = real (length intersection) / real (min (length set1) (length set2))
            in if overlap > 1 / 2 then
                 Some \<lparr> rel_type = ForeignKey, rel_source = col1, rel_target = col2,
                        rel_confidence = overlap,
                        rel_description =
                          ''Potential foreign key relationship between '' @ col1 @ '' and '' @ col2 \<rparr>
               else None)
         else None)"

text \<open>
  \<open>detectRelationships(data, analysis)\<close>, on \<open>analysis.columns\<close>: the outer loop takes
  each column in turn, the inner loop pairs it with every later column
  (\<open>j = i + 1\<close>); a result that is not \<open>null\<close> is pushed.
\<close>

fun detectInner :: "row list \<Rightarrow> string \<Rightarrow> string list \<Rightarrow> relationship list" where
  "detectInner data col1 [] = []"
| "detectInner data col1 (col2 # rest) =
     (case analyzeColumnRelationship data col1 col2 of
        None \<Rightarrow> detectInner data col1 rest
      | Some r \<Rightarrow> r # detectInner data col1 rest)"

fun detectRelationships :: "row list \<Rightarrow> string list \<Rightarrow> relationship list" where
  "detectRelationships data [] = []"
| "detectRelationships data (col1 # rest) =
     detectInner data col1 rest @ detectRelationships data rest"

record property =
  p_name :: string
  p_type :: dataType
  p_patterns :: "string list"
  p_nullable :: bool
  p_unique :: bool
  p_statistics :: statistics

record entity =
  e_name :: string
  e_properties :: "property list"

record constraint =
  c_type :: string
  c_property :: string

record schema =
  s_entities :: "entity list"
  s_relationships :: "relationship list"
  s_constraints :: "constraint list"

definition generateSchema :: "analysis \<Rightarrow> relationship list \<Rightarrow> schema" where
  "generateSchema analysis relationships =
     (let mainEntity =
            \<lparr> e_name = ''MainEntity'',
              e_properties =
                map (\<lambda>(_, col).
                       \<lparr> p_name = cp_name col,
                         p_type = cp_dataType col,
                         p_patterns = cp_patterns col,
                         p_nullable = jsGreater (cp_nullPercentage col) (Fin 0),
                         p_unique = (cp_uniqueValues col = an_totalRows analysis),
                         p_statistics = cp_statistics col \<rparr>)
                  (an_columnAnalysis analysis) \<rparr>
      in \<lparr> s_entities = [mainEntity], s_relationships = relationships, s_constraints = [] \<rparr>)"

text \<open>
  \<open>mergeSchemas(baseSchema, llmSchema)\<close>.  The schema parsed from the answer of the
  language model has each of its three fields or not; its entities, relationships
  and constraints are taken to have the shape of the agent's own.  The entities
  replace those of the base schema, the relationships and the constraints are
  appended to them.  The annotation \<open>llmEnhancements\<close> is left out.
\<close>

record llmSchema =
  ls_entities :: "entity list option"
  ls_relationships :: "relationship list option"
  ls_constraints :: "constraint list option"

definition mergeSchemas :: "schema \<Rightarrow> llmSchema \<Rightarrow> schema" where
  "mergeSchemas baseSchema llmSchema =
     \<lparr> s_entities = (case ls_entities llmSchema of None \<Rightarrow> s_entities baseSchema | Some es \<Rightarrow> es),
       s_relationships =
         s_relationships baseSchema @ (case ls_relationships llmSchema of None \<Rightarrow> [] | Some rs \<Rightarrow> rs),
       s_constraints =
         s_constraints baseSchema @ (case ls_constraints llmSchema of None \<Rightarrow> [] | Some cs \<Rightarrow> cs) \<rparr>"

text \<open>
  The language-model service is external.  Its call fails (\<open>Unavailable\<close>), or its
  answer contains no JSON object that parses and merges (\<open>Prose\<close>), or it contains
  one (\<open>Parsed\<close>).
\<close>

datatype llmAnswer = Unavailable | Prose | Parsed llmSchema

text \<open>
  \<open>enhanceSchemaWithLLMInsights\<close> adds the text of the answer as the annotation
  \<open>llmInsights\<close>, which is left out, and changes nothing else.
\<close>

definition enhanceSchemaWithLLMInsights :: "schema \<Rightarrow> schema" where
  "enhanceSchemaWithLLMInsights baseSchema = baseSchema"

definition parseLLMSchemaResponse :: "llmAnswer \<Rightarrow> analysis \<Rightarrow> relationship list \<Rightarrow> schema" where
  "parseLLMSchemaResponse answer analysis relationships =
     (let baseSchema = generateSchema analysis relationships in
      case answer of
        Parsed llmSchema \<Rightarrow> mergeSchemas baseSchema llmSchema
      | _ \<Rightarrow> enhanceSchemaWithLLMInsights baseSchema)"

definition generateSchemaWithLLM :: "llmAnswer \<Rightarrow> analysis \<Rightarrow> relationship list \<Rightarrow> schema" where
  "generateSchemaWithLLM answer analysis relationships =
     (case answer of
        Unavailable \<Rightarrow> generateSchema analysis relationships
      | _ \<Rightarrow> parseLLMSchemaResponse answer analysis relationships)"

text \<open>The whole number \<open>n\<close> as a number cell.\<close>

definition numberOfNat :: "nat \<Rightarrow> jsdouble" where
  "numberOfNat n = (case stripZeros n 0 of (m, e) \<Rightarrow> DFin False m e)"

text \<open>
  \<open>structureData\<close> puts \<open>id: index + 1\<close> first, spreads the row over it (a column
  named \<open>id\<close> wins) and sets \<open>_metadata\<close> to the row index and a time stamp; the index
  is a field of its own here and the time stamp is left out.
\<close>

definition objectSpread :: "row \<Rightarrow> row \<Rightarrow> row" where
  "objectSpread a b =
     map (\<lambda>(k, v). (k, case map_of b k of None \<Rightarrow> v | Some w \<Rightarrow> w)) a @
     filter (\<lambda>(k, v). k \<notin> fst ` set a) b"

record structuredRow =
  sd_fields :: row
  sd_rowIndex :: nat

definition structureData :: "row list \<Rightarrow> structuredRow list" where
  "structureData data =
     map (\<lambda>(index, row).
            \<lparr> sd_fields =
                filter (\<lambda>(k, v). k \<noteq> ''_metadata'')
                  (objectSpread [(''id'', JNum (numberOfNat (index + 1)))] row),
              sd_rowIndex = index \<rparr>)
       (enumerate 0 data)"

text \<open>
  What the structuring stage hands to the graph stage.  The language-model notes,
  the original data and the time stamps of the result are left out.
\<close>

record 'r structured =
  sr_structuredData :: "'r list option"
  sr_schema :: schema
  sr_relationships :: "relationship list"
  sr_analysis :: analysis

text \<open>
  The parts of the structuring stage that leave this model: the libraries of the
  profiler, the cleaning of the cells (numeric conversion and date normalisation),
  and the answer of the language model to the schema request.
\<close>

record structEnv =
  se_profiler :: profilerEnv
  se_cleanData :: "row list \<Rightarrow> analysis \<Rightarrow> error + row list"
  se_llmAnswer :: llmAnswer

record 'm loaded =
  ld_data :: "row list option"
  ld_metadata :: 'm

text \<open>\<open>DataStructuringAgent.execute(data)\<close>: the guard, then the stages in order.\<close>

definition DataStructuringAgent_execute ::
  "structEnv \<Rightarrow> 'm loaded \<Rightarrow> error + structuredRow structured" where
  "DataStructuringAgent_execute env input =
     (case ld_data input of
        None \<Rightarrow> Inl (Error ''No data provided for structuring'')
      | Some rawData \<Rightarrow>
          if length rawData = 0 then Inl (Error ''No data provided for structuring'')
          else
            (let analysis = analyzeDataStructure (se_profiler env) rawData in
             case se_cleanData env rawData analysis of
               Inl err \<Rightarrow> Inl err
             | Inr cleanedData \<Rightarrow>
                 (let relationships = detectRelationships cleanedData (an_columns analysis);
                      schema = generateSchemaWithLLM (se_llmAnswer env) analysis relationships;
                      structuredData = structureData cleanedData
                  in Inr \<lparr> sr_structuredData = Some structuredData,
                           sr_schema = schema,
                           sr_relationships = relationships,
                           sr_analysis = analysis \<rparr>)))"

text \<open>The value set of a column as the detector reads it, and the overlap ratio of two
  columns on these sets.\<close>

definition columnValueSet :: "row list \<Rightarrow> string \<Rightarrow> jsval set" where
  "columnValueSet data c = {v \<in> (\<lambda>r. getProp r c) ` set data. v \<noteq> JNull}"

definition overlapRatio :: "row list \<Rightarrow> string \<Rightarrow> string \<Rightarrow> real" where
  "overlapRatio data c1 c2 =
     real (card (columnValueSet data c1 \<inter> columnValueSet data c2)) /
     real (min (card (columnValueSet data c1)) (card (columnValueSet data c2)))"

text \<open>
  The set of non-null values of a column: the cells that the records hold for the
  column, \<open>null\<close> and \<open>undefined\<close> apart.  A record without the column has no cell.
  The overlap ratio on these sets.
\<close>

definition presentCells :: "row list \<Rightarrow> string \<Rightarrow> jsval list" where
  "presentCells data c =
     filter (\<lambda>v. v \<noteq> JNull \<and> v \<noteq> JUndefined) (concat (map (\<lambda>r. case map_of r c of None \<Rightarrow> [] | Some v \<Rightarrow> [v]) data))"

definition presentOverlapRatio :: "row list \<Rightarrow> string \<Rightarrow> string \<Rightarrow> real" where
  "presentOverlapRatio data c1 c2 =
     real (card (set (presentCells data c1) \<inter> set (presentCells data c2))) /
     real (min (card (set (presentCells data c1))) (card (set (presentCells data c2))))"

text \<open>The candidates emitted for the unordered pair of columns \<open>c1\<close>, \<open>c2\<close>.\<close>

definition candidatesFor :: "string \<Rightarrow> string \<Rightarrow> relationship list \<Rightarrow> relationship list" where
  "candidatesFor c1 c2 rels =
     filter (\<lambda>r. (rel_source r = c1 \<and> rel_target r = c2) \<or>
                 (rel_source r = c2 \<and> rel_target r = c1)) rels"

section \<open>Graph modelling (GraphModelingAgent)\<close>

record nodeProperty =
  np_name :: string
  np_type :: string
  np_indexed :: bool
  np_unique :: bool

record nodeType =
  nt_name :: string
  nt_properties :: "nodeProperty list"
  nt_constraints :: "constraint list"

record relationshipType =
  rt_name :: string
  rt_source :: string
  rt_target :: string
  rt_type :: relKind
  rt_confidence :: real
  rt_description :: string

record graphModel =
  gm_nodeTypes :: "nodeType list"
  gm_relationshipTypes :: "relationshipType list"
  gm_constraints :: "constraint list"
  gm_indexes :: "string list"

definition mapToNeo4jType :: "dataType \<Rightarrow> string" where
  "mapToNeo4jType dataType =
     (case dataType of
        TString \<Rightarrow> ''String'' | TNumber \<Rightarrow> ''Float'' | TBoolean \<Rightarrow> ''Boolean''
      | TDate \<Rightarrow> ''DateTime'' | TEmail \<Rightarrow> ''String'' | TUrl \<Rightarrow> ''String''
      | TPhone \<Rightarrow> ''String'' | TId \<Rightarrow> ''String'' | TUnknown \<Rightarrow> ''String'')"

definition generateRelationshipName :: "string \<Rightarrow> string \<Rightarrow> string" where
  "generateRelationshipName source target =
     ''RELATES_TO_'' @ toUpperCase source @ ''_'' @ toUpperCase target"

definition areColumnsRelated :: "string \<Rightarrow> string \<Rightarrow> bool" where
  "areColumnsRelated col1 col2 =
     (let lower1 = toLowerCase col1;
          lower2 = toLowerCase col2;
          commonWords = [''id'', ''name'', ''type'', ''status'', ''date'', ''time'']
      in list_ex (\<lambda>word.
           (strIncludes lower1 word \<and> strIncludes lower2 word) \<or>
           (strIncludes lower1 word \<and> strIncludes lower2 (replaceFirst word ''id'' ''name'')) \<or>
           (strIncludes lower1 word \<and> strIncludes lower2 (replaceFirst word ''name'' ''id'')))
         commonWords)"

fun additionalInner :: "string \<Rightarrow> string list \<Rightarrow> relationshipType list" where
  "additionalInner col1 [] = []"
| "additionalInner col1 (col2 # rest) =
     (if areColumnsRelated col1 col2 then
        \<lparr> rt_name = ''RELATED_TO_'' @ toUpperCase col1 @ ''_'' @ toUpperCase col2,
          rt_source = col1, rt_target = col2, rt_type = Semantic,
          rt_confidence = 6 / 10,
          rt_description = ''Semantic relationship between '' @ col1 @ '' and '' @ col2 \<rparr>
        # additionalInner col1 rest
      else additionalInner col1 rest)"

fun additionalOuter :: "string list \<Rightarrow> relationshipType list" where
  "additionalOuter [] = []"
| "additionalOuter (col1 # rest) = additionalInner col1 rest @ additionalOuter rest"

definition detectAdditionalRelationships :: "analysis \<Rightarrow> relationshipType list" where
  "detectAdditionalRelationships analysis = additionalOuter (an_columns analysis)"

text \<open>
  \<open>createGraphModel(schema, relationships, analysis)\<close>.  The method builds a fresh
  model and writes one line to the agent's logger; the lines logged so far are
  threaded through, so that a second run starts from what the first one left.
\<close>

definition createGraphModel ::
  "string list \<Rightarrow> schema \<Rightarrow> relationship list \<Rightarrow> analysis \<Rightarrow> graphModel \<times> string list" where
  "createGraphModel logged schema relationships analysis =
     (let nodeTypes =
            map (\<lambda>entity.
                   \<lparr> nt_name = e_name entity,
                     nt_properties =
                       map (\<lambda>prop.
                              \<lparr> np_name = p_name prop,
                                np_type = mapToNeo4jType (p_type prop),
                                np_indexed = (''identifier'' \<in> set (p_patterns prop) \<or> p_unique prop),
                                np_unique = p_unique prop \<rparr>)
                         (e_properties entity),
                     nt_constraints =
                       map (\<lambda>prop. \<lparr> c_type = ''UNIQUE'', c_property = p_name prop \<rparr>)
                         (filter p_unique (e_properties entity)) \<rparr>)
              (s_entities schema);
          relationshipTypes =
            map (\<lambda>rel.
                   \<lparr> rt_name = generateRelationshipName (rel_source rel) (rel_target rel),
                     rt_source = rel_source rel,
                     rt_target = rel_target rel,
                     rt_type = rel_type rel,
                     rt_confidence = rel_confidence rel,
                     rt_description = rel_description rel \<rparr>)
              relationships;
          additionalRelationships = detectAdditionalRelationships analysis
      in (\<lparr> gm_nodeTypes = nodeTypes,
            gm_relationshipTypes = relationshipTypes @ additionalRelationships,
            gm_constraints = [],
            gm_indexes = [] \<rparr>,
          logged @ [''Creating graph model from schema'']))"

text \<open>
  Loading relationships.  The graph store is a state transformer: a statement runs
  against the store and either fails or reports how many edges it created.
\<close>

datatype statement =
    CreateForeignKey relationshipType "jsval list"
  | CreateHierarchical relationshipType
  | CreateTemporal relationshipType

type_synonym 'db store = "statement \<Rightarrow> 'db \<Rightarrow> (error + nat) \<times> 'db"

definition createForeignKeyRelationships ::
  "'db store \<Rightarrow> row list \<Rightarrow> relationshipType \<Rightarrow> 'db \<Rightarrow> (error + nat) \<times> 'db" where
  "createForeignKeyRelationships run data relType db =
     (let sourceValues =
            jsSet (filter (\<lambda>v. v \<noteq> JNull) (map (\<lambda>row. getProp row (rt_source relType)) data));
          targetValues =
            jsSet (filter (\<lambda>v. v \<noteq> JNull) (map (\<lambda>row. getProp row (rt_target relType)) data));
          commonValues = filter (\<lambda>v. v \<in> set targetValues) sourceValues
      in if length commonValues = 0 then (Inr 0, db)
         else run (CreateForeignKey relType commonValues) db)"

definition createHierarchicalRelationships ::
  "'db store \<Rightarrow> row list \<Rightarrow> relationshipType \<Rightarrow> 'db \<Rightarrow> (error + nat) \<times> 'db" where
  "createHierarchicalRelationships run data relType db = run (CreateHierarchical relType) db"

definition createTemporalRelationships ::
  "'db store \<Rightarrow> row list \<Rightarrow> relationshipType \<Rightarrow> 'db \<Rightarrow> (error + nat) \<times> 'db" where
  "createTemporalRelationships run data relType db = run (CreateTemporal relType) db"

text \<open>The loop of \<open>loadRelationships\<close>; a failing statement ends it with the error.\<close>

fun loadRelationshipTypes ::
  "'db store \<Rightarrow> row list \<Rightarrow> relationshipType list \<Rightarrow> nat \<Rightarrow> 'db \<Rightarrow> (error + nat) \<times> 'db" where
  "loadRelationshipTypes run data [] totalRelationships db = (Inr totalRelationships, db)"
| "loadRelationshipTypes run data (relType # rest) totalRelationships db =
     (if rt_type relType = ForeignKey then
        (case createForeignKeyRelationships run data relType db of
           (Inl err, db') \<Rightarrow> (Inl err, db')
         | (Inr relationships, db') \<Rightarrow>
             loadRelationshipTypes run data rest (totalRelationships + relationships) db')
      else if rt_type relType = Hierarchical then
        (case createHierarchicalRelationships run data relType db of
           (Inl err, db') \<Rightarrow> (Inl err, db')
         | (Inr relationships, db') \<Rightarrow>
             loadRelationshipTypes run data rest (totalRelationships + relationships) db')
      else if rt_type relType = Temporal then
        (case createTemporalRelationships run data relType db of
           (Inl err, db') \<Rightarrow> (Inl err, db')
         | (Inr relationships, db') \<Rightarrow>
             loadRelationshipTypes run data rest (totalRelationships + relationships) db')
      else loadRelationshipTypes run data rest totalRelationships db)"

definition loadRelationships ::
  "'db store \<Rightarrow> row list \<Rightarrow> graphModel \<Rightarrow> 'db \<Rightarrow> (error + nat) \<times> 'db" where
  "loadRelationships run data graphModel db =
     loadRelationshipTypes run data (gm_relationshipTypes graphModel) 0 db"

text \<open>
  The agent's connection state.  A fresh agent has no driver and no \<open>demoMode\<close>
  field, which tests as false.  \<open>initialize\<close> creates the driver and verifies
  connectivity; when either step fails the agent switches to demo mode.
\<close>

record gmAgent =
  ag_driver :: bool
  ag_demoMode :: bool

definition GraphModelingAgent_new :: gmAgent where
  "GraphModelingAgent_new = \<lparr> ag_driver = False, ag_demoMode = False \<rparr>"

definition GraphModelingAgent_initialize :: "bool \<Rightarrow> gmAgent \<Rightarrow> gmAgent" where
  "GraphModelingAgent_initialize reachable agent =
     (if reachable then agent \<lparr> ag_driver := True, ag_demoMode := False \<rparr>
      else agent \<lparr> ag_demoMode := True, ag_driver := False \<rparr>)"

record 'r demoNode =
  dn_id :: string
  dn_label :: string
  dn_group :: string
  dn_properties :: 'r
  dn_size :: real

record demoEdge =
  de_id :: string
  de_from :: string
  de_to :: string
  de_label :: string
  de_width :: real

record insight =
  in_type :: string
  in_title :: string
  in_description :: string
  in_confidence :: real

record demoStatistics =
  ds_totalNodes :: nat
  ds_totalEdges :: nat
  ds_nodeTypes :: "string list"
  ds_relationshipTypes :: "string list"

record 'r demoResult =
  dr_success :: bool
  dr_nodes :: "'r demoNode list"
  dr_edges :: "demoEdge list"
  dr_insights :: "insight list"
  dr_statistics :: demoStatistics
  dr_demoMode :: bool
  dr_message :: string

definition demoInsights :: "insight list" where
  "demoInsights =
     [\<lparr> in_type = ''pattern'', in_title = ''Data Clustering'',
         in_description = ''Detected 3 main clusters in the data structure'',
         in_confidence = 85 / 100 \<rparr>,
      \<lparr> in_type = ''anomaly'', in_title = ''Outlier Detection'',
         in_description = ''Found 2 potential outliers in the dataset'',
         in_confidence = 72 / 100 \<rparr>,
      \<lparr> in_type = ''relationship'', in_title = ''Strong Correlations'',
         in_description = ''Identified 5 strong correlations between entities'',
         in_confidence = 91 / 100 \<rparr>]"

text \<open>
  \<open>generateDemoGraphData\<close>.  \<open>rnd k\<close> is the value of the \<open>k\<close>-th call of the random
  number generator: one call per node, then one per edge.  The loop bound
  \<open>Math.min(5, nodes.length - 1)\<close> is computed on integers.
\<close>

definition generateDemoGraphData ::
  "(nat \<Rightarrow> real) \<Rightarrow> 'r list \<Rightarrow> schema \<Rightarrow> relationship list \<Rightarrow> analysis \<Rightarrow> 'r demoResult" where
  "generateDemoGraphData rnd structuredData schema relationships analysis =
     (let nodeType = (case s_entities schema of
                        [] \<Rightarrow> ''Entity''
                      | entity # _ \<Rightarrow> if e_name entity = [] then ''Entity'' else e_name entity);
          nodes = map (\<lambda>(index, entry).
                         \<lparr> dn_id = ''node_'' @ showNat index,
                           dn_label = nodeType @ '' '' @ showNat (index + 1),
                           dn_group = nodeType,
                           dn_properties = entry,
                           dn_size = rnd index * 20 + 10 \<rparr>)
                    (enumerate 0 (take 10 structuredData));
          edges = map (\<lambda>i.
                         \<lparr> de_id = ''edge_'' @ showNat i,
                           de_from = dn_id (nodes ! i),
                           de_to = dn_id (nodes ! (i + 1)),
                           de_label = ''RELATES_TO'',
                           de_width = rnd (length nodes + i) * 5 + 1 \<rparr>)
                    [0 ..< nat (min 5 (int (length nodes) - 1))]
      in \<lparr> dr_success = True,
           dr_nodes = nodes,
           dr_edges = edges,
           dr_insights = demoInsights,
           dr_statistics =
             \<lparr> ds_totalNodes = length nodes,
               ds_totalEdges = length edges,
               ds_nodeTypes = jsSet (map dn_group nodes),
               ds_relationshipTypes = jsSet (map de_label edges) \<rparr>,
           dr_demoMode = True,
           dr_message =
             ''Demo mode: Graph data generated for visualization. Install Neo4j for full functionality.'' \<rparr>)"

text \<open>
  \<open>GraphModelingAgent.execute(data)\<close>.  The path that talks to the store (clearing,
  compiling the model, loading, analysing) is the parameter \<open>storePath\<close>; a failure
  of the store surfaces there as an error.
\<close>

definition GraphModelingAgent_execute ::
  "(nat \<Rightarrow> real) \<Rightarrow> ('r structured \<Rightarrow> error + 'g) \<Rightarrow> gmAgent \<Rightarrow> 'r structured \<Rightarrow>
     error + ('r demoResult + 'g)" where
  "GraphModelingAgent_execute rnd storePath agent input =
     (case sr_structuredData input of
        None \<Rightarrow> Inl (Error ''No structured data provided for graph modeling'')
      | Some structuredData \<Rightarrow>
          if length structuredData = 0 then
            Inl (Error ''No structured data provided for graph modeling'')
          else if ag_demoMode agent then
            Inr (Inl (generateDemoGraphData rnd structuredData (sr_schema input)
                        (sr_relationships input) (sr_analysis input)))
          else
            (case storePath input of Inl err \<Rightarrow> Inl err | Inr r \<Rightarrow> Inr (Inr r)))"

section \<open>Agents and orchestration\<close>

text \<open>
  \<open>BaseAgent.process(data)\<close> runs \<open>execute\<close>, leaves the agent's status at
  \<open>completed\<close> or \<open>error\<close>, and returns the result or rethrows the error.
\<close>

definition BaseAgent_process :: "('a \<Rightarrow> error + 'b) \<Rightarrow> 'a \<Rightarrow> string \<times> (error + 'b)" where
  "BaseAgent_process execute data =
     (case execute data of
        Inr result \<Rightarrow> (''completed'', Inr result)
      | Inl err \<Rightarrow> (''error'', Inl err))"

datatype status = Started | Completed | Failed

datatype ('l, 's, 'g) stepResult = LoadResult 'l | StructureResult 's | GraphResult 'g

text \<open>Steps and jobs; the time stamps of the source and the events it emits are left
  out.\<close>

record ('l, 's, 'g) step =
  st_name :: string
  st_status :: status
  st_result :: "('l, 's, 'g) stepResult option"
  st_error :: "string option"

record 'd jobConfig =
  dataSource :: 'd

record ('d, 'l, 's, 'g) job =
  j_id :: string
  j_config :: "'d jobConfig"
  j_status :: status
  j_steps :: "('l, 's, 'g) step list"
  j_result :: "('l \<times> 's \<times> 'g) option"
  j_error :: "string option"

text \<open>The \<open>process\<close> methods of the three agents of the orchestrator.\<close>

record ('d, 'l, 's, 'g) agents =
  dataLoader :: "'d \<Rightarrow> error + 'l"
  dataStructuring :: "'l \<Rightarrow> error + 's"
  graphModeling :: "'s \<Rightarrow> error + 'g"

text \<open>
  The orchestrator: the current job, the job history, and the callbacks that
  \<open>setImmediate\<close> has queued for a later turn of the event loop.
\<close>

record ('d, 'l, 's, 'g) orchestrator =
  currentJob :: "('d, 'l, 's, 'g) job option"
  jobHistory :: "('d, 'l, 's, 'g) job list"
  scheduled :: "'d jobConfig list"

definition AgentOrchestrator_new :: "('d, 'l, 's, 'g) orchestrator" where
  "AgentOrchestrator_new = \<lparr> currentJob = None, jobHistory = [], scheduled = [] \<rparr>"

definition newJob :: "string \<Rightarrow> 'd jobConfig \<Rightarrow> ('d, 'l, 's, 'g) job" where
  "newJob jid jobConfig =
     \<lparr> j_id = jid, j_config = jobConfig, j_status = Started, j_steps = [],
       j_result = None, j_error = None \<rparr>"

definition pushStep :: "string \<Rightarrow> ('d, 'l, 's, 'g) job \<Rightarrow> ('d, 'l, 's, 'g) job" where
  "pushStep name job =
     job \<lparr> j_steps := j_steps job @
             [\<lparr> st_name = name, st_status = Started, st_result = None, st_error = None \<rparr>] \<rparr>"

text \<open>The three assignments to \<open>job.steps[job.steps.length - 1]\<close> after a stage returns.\<close>

definition completeStep ::
  "('l, 's, 'g) stepResult \<Rightarrow> ('d, 'l, 's, 'g) job \<Rightarrow> ('d, 'l, 's, 'g) job" where
  "completeStep result job =
     job \<lparr> j_steps := butlast (j_steps job) @
             [(last (j_steps job)) \<lparr> st_status := Completed, st_result := Some result \<rparr>] \<rparr>"

text \<open>The \<open>catch\<close> block of \<open>processData\<close>.\<close>

definition failJob :: "string \<Rightarrow> ('d, 'l, 's, 'g) job \<Rightarrow> ('d, 'l, 's, 'g) job" where
  "failJob msg job =
     (let failed = job \<lparr> j_status := Failed, j_error := Some msg \<rparr> in
      if length (j_steps failed) > 0 \<and> st_status (last (j_steps failed)) = Started then
        failed \<lparr> j_steps := butlast (j_steps failed) @
                   [(last (j_steps failed)) \<lparr> st_status := Failed, st_error := Some msg \<rparr>] \<rparr>
      else failed)"

text \<open>
  The body of \<open>processData\<close> on the job object: the list holds every state the job
  goes through, in order, and the second component is what the call returns or
  throws.
\<close>

definition runJob ::
  "('d, 'l, 's, 'g) agents \<Rightarrow> ('d, 'l, 's, 'g) job \<Rightarrow>
     ('d, 'l, 's, 'g) job list \<times> (error + 'l \<times> 's \<times> 'g)" where
  "runJob ags job =
     (let j1 = pushStep ''dataLoading'' job in
      case dataLoader ags (dataSource (j_config job)) of
        Inl err \<Rightarrow> ([job, j1, failJob (message err) j1], Inl err)
      | Inr loadResult \<Rightarrow>
          (let j2 = completeStep (LoadResult loadResult) j1;
               j3 = pushStep ''dataStructuring'' j2 in
           case dataStructuring ags loadResult of
             Inl err \<Rightarrow> ([job, j1, j2, j3, failJob (message err) j3], Inl err)
           | Inr structureResult \<Rightarrow>
               (let j4 = completeStep (StructureResult structureResult) j3;
                    j5 = pushStep ''graphModeling'' j4 in
                case graphModeling ags structureResult of
                  Inl err \<Rightarrow> ([job, j1, j2, j3, j4, j5, failJob (message err) j5], Inl err)
                | Inr graphResult \<Rightarrow>
                    (let j6 = completeStep (GraphResult graphResult) j5;
                         j7 = j6 \<lparr> j_status := Completed,
                                   j_result := Some (loadResult, structureResult, graphResult) \<rparr>
                     in ([job, j1, j2, j3, j4, j5, j6, j7],
                         Inr (loadResult, structureResult, graphResult))))))"

text \<open>
  \<open>processData(jobConfig)\<close>; \<open>jid\<close> is the identifier that \<open>generateJobId\<close> returns
  for this call.  The job object is the current job and the last entry of the
  history, and both show its final state when the call is over.
\<close>

definition processData ::
  "('d, 'l, 's, 'g) agents \<Rightarrow> string \<Rightarrow> 'd jobConfig \<Rightarrow> ('d, 'l, 's, 'g) orchestrator \<Rightarrow>
     (error + 'l \<times> 's \<times> 'g) \<times> ('d, 'l, 's, 'g) orchestrator" where
  "processData ags jid jobConfig orch =
     (case runJob ags (newJob jid jobConfig) of
        (trace, outcome) \<Rightarrow>
          (outcome,
           orch \<lparr> currentJob := Some (last trace),
                  jobHistory := jobHistory orch @ [last trace] \<rparr>))"

text \<open>
  \<open>processDataAsync(jobConfig)\<close> queues the call of \<open>processData\<close> and returns
  \<open>this.currentJob?.id\<close>; \<open>runScheduled\<close> is the later turn of the event loop that runs
  the first queued callback, which logs a failure and swallows it.
\<close>

definition processDataAsync ::
  "'d jobConfig \<Rightarrow> ('d, 'l, 's, 'g) orchestrator \<Rightarrow>
     string option \<times> ('d, 'l, 's, 'g) orchestrator" where
  "processDataAsync jobConfig orch =
     (map_option j_id (currentJob orch), orch \<lparr> scheduled := scheduled orch @ [jobConfig] \<rparr>)"

definition runScheduled ::
  "('d, 'l, 's, 'g) agents \<Rightarrow> string \<Rightarrow> ('d, 'l, 's, 'g) orchestrator \<Rightarrow>
     ('d, 'l, 's, 'g) orchestrator" where
  "runScheduled ags jid orch =
     (case scheduled orch of
        [] \<Rightarrow> orch
      | jobConfig # rest \<Rightarrow> snd (processData ags jid jobConfig (orch \<lparr> scheduled := rest \<rparr>)))"

record ('l, 's, 'g) batchResult =
  b_results :: "(nat \<times> 'l \<times> 's \<times> 'g) list"
  b_errors :: "(nat \<times> string) list"
  b_total :: nat
  b_successful :: nat
  b_failed :: nat

text \<open>
  The loop of \<open>processBatch\<close> from index \<open>i\<close> on; \<open>ids i\<close> is the identifier generated
  for the job at index \<open>i\<close>.
\<close>

fun batchLoop ::
  "('d, 'l, 's, 'g) agents \<Rightarrow> (nat \<Rightarrow> string) \<Rightarrow> nat \<Rightarrow> 'd jobConfig list \<Rightarrow>
     (nat \<times> 'l \<times> 's \<times> 'g) list \<Rightarrow> (nat \<times> string) list \<Rightarrow> ('d, 'l, 's, 'g) orchestrator \<Rightarrow>
     ((nat \<times> 'l \<times> 's \<times> 'g) list \<times> (nat \<times> string) list) \<times> ('d, 'l, 's, 'g) orchestrator" where
  "batchLoop ags ids i [] results errors orch = ((results, errors), orch)"
| "batchLoop ags ids i (jobConfig # rest) results errors orch =
     (case processData ags (ids i) jobConfig orch of
        (Inr result, orch') \<Rightarrow>
          batchLoop ags ids (i + 1) rest (results @ [(i, result)]) errors orch'
      | (Inl err, orch') \<Rightarrow>
          batchLoop ags ids (i + 1) rest results (errors @ [(i, message err)]) orch')"

definition processBatch ::
  "('d, 'l, 's, 'g) agents \<Rightarrow> (nat \<Rightarrow> string) \<Rightarrow> 'd jobConfig list \<Rightarrow>
     ('d, 'l, 's, 'g) orchestrator \<Rightarrow> ('l, 's, 'g) batchResult \<times> ('d, 'l, 's, 'g) orchestrator" where
  "processBatch ags ids jobConfigs orch =
     (case batchLoop ags ids 0 jobConfigs [] [] orch of
        ((results, errors), orch') \<Rightarrow>
          (\<lparr> b_results = results, b_errors = errors,
             b_total = length jobConfigs,
             b_successful = length results,
             b_failed = length errors \<rparr>, orch'))"

text \<open>What one job returns or throws; it does not depend on the identifier.\<close>

definition jobOutcome :: "('d, 'l, 's, 'g) agents \<Rightarrow> 'd jobConfig \<Rightarrow> error + 'l \<times> 's \<times> 'g" where
  "jobOutcome ags jobConfig = snd (runJob ags (newJob [] jobConfig))"

section \<open>Notions used in the statements\<close>

text \<open>The entries of a column over a list of records, and the entries the profiler
  keeps: neither \<open>null\<close> nor \<open>undefined\<close> nor the empty string.\<close>

definition columnEntries :: "row list \<Rightarrow> string \<Rightarrow> jsval list" where
  "columnEntries data c = map (\<lambda>row. getProp row c) data"

definition presentValues :: "jsval list \<Rightarrow> jsval list" where
  "presentValues values =
     filter (\<lambda>val. val \<noteq> JNull \<and> val \<noteq> JUndefined \<and> val \<noteq> JStr []) values"

text \<open>
  A finite float: a number cell that is finite, or a string that is not blank and
  that \<open>Number\<close> reads as a finite number.
\<close>

definition finiteFloat :: "jsval \<Rightarrow> bool" where
  "finiteFloat v =
     (case v of
        JNum d \<Rightarrow> (case d of DFin negative m e \<Rightarrow> True | _ \<Rightarrow> False)
      | JStr s \<Rightarrow> trim s \<noteq> [] \<and> (case stringToNumber s of Fin r \<Rightarrow> True | _ \<Rightarrow> False)
      | _ \<Rightarrow> False)"

definition writtenZeroOrOne :: "jsval \<Rightarrow> bool" where
  "writtenZeroOrOne v = (jsString v = ''0'' \<or> jsString v = ''1'')"

text \<open>
  The classification as the specification words it: the tests in their order of
  precedence, and the first type whose test holds for every sample value, with
  \<open>string\<close> when there is none.
\<close>

definition typePrecedence ::
  "(jsval \<Rightarrow> bool) \<Rightarrow> (jsval \<Rightarrow> bool) \<Rightarrow> (dataType \<times> (jsval \<Rightarrow> bool)) list" where
  "typePrecedence dateTest urlTest =
     [(TBoolean, isBooleanLike), (TNumber, isNumeric), (TDate, dateTest), (TEmail, isValidEmail),
      (TUrl, urlTest), (TPhone, isValidPhone), (TId, looksLikeID)]"

definition firstMatchingType :: "(dataType \<times> (jsval \<Rightarrow> bool)) list \<Rightarrow> jsval list \<Rightarrow> dataType" where
  "firstMatchingType tests sample =
     (case find (\<lambda>(t, p). list_all p sample) tests of None \<Rightarrow> TString | Some (t, p) \<Rightarrow> t)"

text \<open>A string starts like a decimal number: a digit, or a dot and a digit.\<close>

definition floatStart :: "string \<Rightarrow> bool" where
  "floatStart u = ((u \<noteq> [] \<and> isDigit (hd u)) \<or>
                   (startsWith u ''.'' \<and> tl u \<noteq> [] \<and> isDigit (hd (tl u))))"

text \<open>
  The results and the errors a batch collects from index \<open>i\<close> on: each
  configuration with its index, in list order, under what its job returns or throws.
\<close>

definition successes :: "('d, 'l, 's, 'g) agents \<Rightarrow> nat \<Rightarrow> 'd jobConfig list \<Rightarrow> (nat \<times> 'l \<times> 's \<times> 'g) list" where
  "successes ags i jobConfigs =
     concat (map (\<lambda>(k, jobConfig). case jobOutcome ags jobConfig of Inl err \<Rightarrow> [] | Inr result \<Rightarrow> [(k, result)])
               (enumerate i jobConfigs))"

definition failures :: "('d, 'l, 's, 'g) agents \<Rightarrow> nat \<Rightarrow> 'd jobConfig list \<Rightarrow> (nat \<times> string) list" where
  "failures ags i jobConfigs =
     concat (map (\<lambda>(k, jobConfig). case jobOutcome ags jobConfig of Inl err \<Rightarrow> [(k, message err)] | Inr result \<Rightarrow> [])
               (enumerate i jobConfigs))"

text \<open>The relationships that the answer of the language model supplies.\<close>

definition llmRelationships :: "llmAnswer \<Rightarrow> relationship list" where
  "llmRelationships answer =
     (case answer of
        Parsed llmSchema \<Rightarrow> (case ls_relationships llmSchema of None \<Rightarrow> [] | Some rs \<Rightarrow> rs)
      | _ \<Rightarrow> [])"

text \<open>
  The types of the relationships in the schema of a result of the structuring stage,
  and of those in its top-level list.
\<close>

definition schemaRelationshipTypes :: "error + 'r structured \<Rightarrow> relKind list option" where
  "schemaRelationshipTypes res =
     (case res of Inl err \<Rightarrow> None | Inr out \<Rightarrow> Some (map rel_type (s_relationships (sr_schema out))))"

definition handedRelationshipTypes :: "error + 'r structured \<Rightarrow> relKind list option" where
  "handedRelationshipTypes res =
     (case res of Inl err \<Rightarrow> None | Inr out \<Rightarrow> Some (map rel_type (sr_relationships out)))"

text \<open>Two stores that answer every foreign-key statement alike.\<close>

definition agreeOnForeignKeys :: "'db store \<Rightarrow> 'db store \<Rightarrow> bool" where
  "agreeOnForeignKeys run run' =
     (\<forall>relType vs db. run (CreateForeignKey relType vs) db = run' (CreateForeignKey relType vs) db)"

section \<open>Example inputs\<close>

text \<open>Libraries that recognise no date and no URL, and an empty numeric summary.\<close>

definition exEnv :: profilerEnv where
  "exEnv = \<lparr> isValidDate = (\<lambda>v. False), isValidURL = (\<lambda>v. False), numberSummary = (\<lambda>nums. []) \<rparr>"

text \<open>Columns of numeric cells, and a column with a \<open>null\<close>.\<close>

definition exFlags :: "row list" where
  "exFlags = [[(''flag'', JStr ''1'')], [(''flag'', JStr ''0'')], [(''flag'', JStr ''1'')]]"

definition exPrices :: "row list" where
  "exPrices =
     [[(''price'', JStr ''3.14'')], [(''price'', JNum (DFin False 25 (- 1)))],
      [(''price'', JStr ''-1e3'')], [(''price'', JStr ''0x1F'')]]"

definition exNulls :: "row list" where
  "exNulls = [[(''a'', JInt 1)], [(''a'', JNull)]]"

text \<open>
  Three employees with their managers, where two of the three identifiers occur as
  managers.
\<close>

definition exManagers :: "row list" where
  "exManagers =
     [[(''id'', JInt 1), (''mgr'', JInt 5)],
      [(''id'', JInt 2), (''mgr'', JInt 1)],
      [(''id'', JInt 5), (''mgr'', JInt 5)]]"

text \<open>A table whose second record has no \<open>b\<close> and whose third record has no \<open>a\<close>.\<close>

definition exMissing :: "row list" where
  "exMissing = [[(''a'', JInt 1), (''b'', JInt 1)], [(''a'', JInt 2)], [(''b'', JInt 3)]]"

definition exSchema :: schema where
  "exSchema =
     \<lparr> s_entities =
         [\<lparr> e_name = ''MainEntity'',
            e_properties =
              [\<lparr> p_name = ''id'', p_type = TNumber, p_patterns = [''identifier'', ''integer'', ''positive''],
                  p_nullable = False, p_unique = True, p_statistics = [] \<rparr>,
               \<lparr> p_name = ''mgr'', p_type = TNumber, p_patterns = [''integer'', ''positive''],
                  p_nullable = False, p_unique = False, p_statistics = [] \<rparr>] \<rparr>],
       s_relationships = [], s_constraints = [] \<rparr>"

definition exAnalysis :: analysis where
  "exAnalysis =
     \<lparr> an_columns = [''id'', ''mgr''], an_columnAnalysis = [], an_sampleSize = 3, an_totalRows = 3 \<rparr>"

definition exInput :: "row structured" where
  "exInput =
     \<lparr> sr_structuredData = Some exManagers, sr_schema = exSchema, sr_relationships = [],
       sr_analysis = exAnalysis \<rparr>"

definition exLoaded :: "unit loaded" where
  "exLoaded = \<lparr> ld_data = Some exManagers, ld_metadata = () \<rparr>"

text \<open>A random number generator that always returns one half, and a store path that
  always fails.\<close>

definition exRnd :: "nat \<Rightarrow> real" where
  "exRnd k = 1 / 2"

definition exStorePath :: "row structured \<Rightarrow> error + unit" where
  "exStorePath input = Inl (Error ''store unavailable'')"

definition exStructEnv :: structEnv where
  "exStructEnv =
     \<lparr> se_profiler = exEnv, se_cleanData = (\<lambda>data analysis. Inr data), se_llmAnswer = Unavailable \<rparr>"

text \<open>
  The same stage when the language model answers with a schema that names one
  relationship of its own.
\<close>

definition exLlmSchema :: llmSchema where
  "exLlmSchema =
     \<lparr> ls_entities = None,
       ls_relationships =
         Some [\<lparr> rel_type = Hierarchical, rel_source = ''mgr'', rel_target = ''id'',
                  rel_confidence = 1, rel_description = ''reports to'' \<rparr>],
       ls_constraints = None \<rparr>"

definition exLlmEnv :: structEnv where
  "exLlmEnv = exStructEnv \<lparr> se_llmAnswer := Parsed exLlmSchema \<rparr>"

text \<open>
  A pipeline whose loader delivers zero rows, and a pipeline of identity stages whose
  loader rejects the source \<open>bad\<close>.
\<close>

definition exAgents :: "(string, unit loaded, structuredRow structured, unit) agents" where
  "exAgents =
     \<lparr> dataLoader = (\<lambda>src. Inr \<lparr> ld_data = Some [], ld_metadata = () \<rparr>),
       dataStructuring = (\<lambda>input. snd (BaseAgent_process (DataStructuringAgent_execute exStructEnv) input)),
       graphModeling = (\<lambda>s. Inr ()) \<rparr>"

definition exBatchAgents :: "(string, string, string, string) agents" where
  "exBatchAgents =
     \<lparr> dataLoader = (\<lambda>src. if src = ''bad'' then Inl (Error ''Unsupported source type: bad'') else Inr src),
       dataStructuring = (\<lambda>l. Inr l),
       graphModeling = (\<lambda>s. Inr s) \<rparr>"

definition exConfigs :: "string jobConfig list" where
  "exConfigs = [\<lparr> dataSource = ''a'' \<rparr>, \<lparr> dataSource = ''bad'' \<rparr>, \<lparr> dataSource = ''c'' \<rparr>]"

definition exIds :: "nat \<Rightarrow> string" where
  "exIds i = ''job_'' @ showNat i"

text \<open>Two stores that differ only on hierarchical and temporal statements.\<close>

definition exStoreA :: "unit store" where
  "exStoreA stmt db = (Inr 1, db)"

definition exStoreB :: "unit store" where
  "exStoreB stmt db =
     (case stmt of CreateForeignKey relType vs \<Rightarrow> (Inr 1, db) | _ \<Rightarrow> (Inl (Error ''not reached''), db))"

section \<open>Relationship detection finds foreign keys by overlap\<close>

lemma set_setAdd: "set (setAdd acc xs) = set acc \<union> set xs"
  by (induction xs arbitrary: acc) auto

lemma distinct_setAdd: "distinct acc \<Longrightarrow> distinct (setAdd acc xs)"
  by (induction xs arbitrary: acc) auto

lemma set_jsSet: "set (jsSet xs) = set xs"
  by (simp add: jsSet_def set_setAdd)

lemma distinct_jsSet: "distinct (jsSet xs)"
  by (simp add: jsSet_def distinct_setAdd)

lemma length_jsSet: "length (jsSet xs) = card (set xs)"
  using distinct_card [OF distinct_jsSet, of xs] by (simp add: set_jsSet)

lemma set_column_values:
  "set (filter (\<lambda>v. v \<noteq> JNull) (map (\<lambda>r. getProp r c) data)) = columnValueSet data c"
  by (auto simp: columnValueSet_def)

lemma analyzeColumnRelationship_eq:
  "analyzeColumnRelationship data c1 c2 =
     (if columnValueSet data c1 \<inter> columnValueSet data c2 \<noteq> {} \<and> overlapRatio data c1 c2 > 1 / 2
      then Some \<lparr> rel_type = ForeignKey, rel_source = c1, rel_target = c2,
                  rel_confidence = overlapRatio data c1 c2,
                  rel_description =
                    ''Potential foreign key relationship between '' @ c1 @ '' and '' @ c2 \<rparr>
      else None)"
proof -
  let ?S1 = "columnValueSet data c1" and ?S2 = "columnValueSet data c2"
  have fin: "finite ?S1" by (simp add: columnValueSet_def)
  have inter: "set (filter (\<lambda>x. x \<in> set (jsSet (filter (\<lambda>v. v \<noteq> JNull) (map (\<lambda>r. getProp r c2) data))))
                 (jsSet (filter (\<lambda>v. v \<noteq> JNull) (map (\<lambda>r. getProp r c1) data)))) = ?S1 \<inter> ?S2"
    by (subst set_filter, simp only: set_jsSet set_column_values) auto
  have pos: "(0 < card (?S1 \<inter> ?S2)) = (?S1 \<inter> ?S2 \<noteq> {})"
    using fin by (simp add: card_gt_0_iff)
  show ?thesis
    unfolding analyzeColumnRelationship_def Let_def length_jsSet inter set_column_values
      overlapRatio_def pos
    by simp
qed

lemma overlapRatio_commute: "overlapRatio data c1 c2 = overlapRatio data c2 c1"
  by (simp add: overlapRatio_def Int_commute min.commute)

lemma detectInner_source_target:
  "r \<in> set (detectInner data x rest) \<Longrightarrow> rel_source r = x \<and> rel_target r \<in> set rest"
  by (induction rest) (auto simp: analyzeColumnRelationship_eq split: option.splits if_splits)

lemma detectRelationships_source_target:
  "r \<in> set (detectRelationships data cols) \<Longrightarrow>
     rel_source r \<in> set cols \<and> rel_target r \<in> set cols"
  by (induction cols) (auto dest: detectInner_source_target)

lemma detectInner_filter_target:
  "distinct rest \<Longrightarrow> c \<in> set rest \<Longrightarrow>
     filter (\<lambda>r. rel_target r = c) (detectInner data x rest) =
       (case analyzeColumnRelationship data x c of None \<Rightarrow> [] | Some r \<Rightarrow> [r])"
proof (induction rest)
  case Nil
  then show ?case by simp
next
  case (Cons y rest)
  have none: "c \<notin> set rest \<Longrightarrow> filter (\<lambda>r. rel_target r = c) (detectInner data x rest) = []"
    by (auto simp: filter_empty_conv dest: detectInner_source_target)
  show ?case
  proof (cases "y = c")
    case True
    with Cons.prems have "c \<notin> set rest" by simp
    from none [OF this] True show ?thesis
      by (auto simp: analyzeColumnRelationship_eq split: option.splits if_splits)
  next
    case False
    with Cons.prems have "c \<in> set rest" "distinct rest" by auto
    from Cons.IH [OF this(2) this(1)] False show ?thesis
      by (auto simp: analyzeColumnRelationship_eq split: option.splits if_splits)
  qed
qed

lemma candidatesFor_head:
  assumes "distinct rest" "c \<in> set rest" "x \<notin> set rest"
  shows "candidatesFor x c (detectInner data x rest @ detectRelationships data rest) =
           (case analyzeColumnRelationship data x c of None \<Rightarrow> [] | Some r \<Rightarrow> [r])"
proof -
  have xc: "x \<noteq> c" using assms by auto
  have "filter (\<lambda>r. (rel_source r = x \<and> rel_target r = c) \<or> (rel_source r = c \<and> rel_target r = x))
          (detectInner data x rest) = filter (\<lambda>r. rel_target r = c) (detectInner data x rest)"
    using xc by (intro filter_cong refl) (auto dest: detectInner_source_target)
  moreover have "filter (\<lambda>r. (rel_source r = x \<and> rel_target r = c) \<or> (rel_source r = c \<and> rel_target r = x))
          (detectRelationships data rest) = []"
    using assms(3) by (auto simp: filter_empty_conv dest: detectRelationships_source_target)
  ultimately show ?thesis
    using detectInner_filter_target [OF assms(1,2)] by (simp add: candidatesFor_def)
qed

lemma candidatesFor_commute: "candidatesFor c1 c2 rels = candidatesFor c2 c1 rels"
  unfolding candidatesFor_def by (intro filter_cong refl) auto

lemma candidatesFor_detect:
  "distinct cols \<Longrightarrow> c1 \<in> set cols \<Longrightarrow> c2 \<in> set cols \<Longrightarrow> c1 \<noteq> c2 \<Longrightarrow>
     candidatesFor c1 c2 (detectRelationships data cols) =
       (case analyzeColumnRelationship data c1 c2 of None \<Rightarrow> [] | Some r \<Rightarrow> [r]) \<or>
     candidatesFor c1 c2 (detectRelationships data cols) =
       (case analyzeColumnRelationship data c2 c1 of None \<Rightarrow> [] | Some r \<Rightarrow> [r])"
proof (induction cols)
  case Nil
  then show ?case by simp
next
  case (Cons x rest)
  consider "x = c1" | "x = c2" | "x \<noteq> c1" "x \<noteq> c2" by blast
  then show ?case
  proof cases
    case 1
    with Cons.prems have "distinct rest" "c2 \<in> set rest" "c1 \<notin> set rest" by auto
    from candidatesFor_head [OF this] 1 show ?thesis by simp
  next
    case 2
    with Cons.prems have "distinct rest" "c1 \<in> set rest" "c2 \<notin> set rest" by auto
    from candidatesFor_head [OF this] 2 show ?thesis
      by (simp add: candidatesFor_commute [of c1 c2])
  next
    case 3
    with Cons.prems have in_rest: "distinct rest" "c1 \<in> set rest" "c2 \<in> set rest" by auto
    have "candidatesFor c1 c2 (detectInner data x rest) = []"
      using 3 by (auto simp: candidatesFor_def filter_empty_conv dest: detectInner_source_target)
    then have "candidatesFor c1 c2 (detectRelationships data (x # rest)) =
                 candidatesFor c1 c2 (detectRelationships data rest)"
      by (simp add: candidatesFor_def)
    with Cons.IH [OF in_rest Cons.prems(4)] show ?thesis by simp
  qed
qed

text \<open>
  On the value sets that the detector reads, the threshold is exact: for two
  distinct columns of a column list without duplicates there is no candidate when
  the sets are disjoint or the ratio is at most one half, and exactly one candidate,
  of type \<open>foreign_key\<close> and with the ratio as its confidence, otherwise.
\<close>

lemma detector_threshold:
  assumes "distinct columns" "c1 \<in> set columns" "c2 \<in> set columns" "c1 \<noteq> c2"
  shows "(columnValueSet data c1 \<inter> columnValueSet data c2 = {} \<or> overlapRatio data c1 c2 \<le> 1 / 2 \<longrightarrow>
            candidatesFor c1 c2 (detectRelationships data columns) = []) \<and>
         (overlapRatio data c1 c2 > 1 / 2 \<longrightarrow>
            (\<exists>r. candidatesFor c1 c2 (detectRelationships data columns) = [r] \<and>
                 rel_type r = ForeignKey \<and> rel_confidence r = overlapRatio data c1 c2))"
proof -
  have nonempty: "columnValueSet data c1 \<inter> columnValueSet data c2 \<noteq> {}"
    if "overlapRatio data c1 c2 > 1 / 2"
    using that by (auto simp: overlapRatio_def)
  from candidatesFor_detect [OF assms, of data] show ?thesis
  proof
    assume "candidatesFor c1 c2 (detectRelationships data columns) =
       (case analyzeColumnRelationship data c1 c2 of None \<Rightarrow> [] | Some r \<Rightarrow> [r])"
    then show ?thesis
      using nonempty by (auto simp: analyzeColumnRelationship_eq)
  next
    assume "candidatesFor c1 c2 (detectRelationships data columns) =
       (case analyzeColumnRelationship data c2 c1 of None \<Rightarrow> [] | Some r \<Rightarrow> [r])"
    then show ?thesis
      using nonempty
      by (auto simp: analyzeColumnRelationship_eq overlapRatio_commute [of data c2 c1] Int_commute)
  qed
qed

lemma exManagers_ratio: "overlapRatio exManagers ''id'' ''mgr'' = 1"
proof -
  have a: "columnValueSet exManagers ''id'' = {JInt 1, JInt 2, JInt 5}"
    by (auto simp: columnValueSet_def exManagers_def getProp_def)
  have b: "columnValueSet exManagers ''mgr'' = {JInt 5, JInt 1}"
    by (auto simp: columnValueSet_def exManagers_def getProp_def)
  show ?thesis unfolding overlapRatio_def a b by simp
qed

lemma exMissing_values:
  "columnValueSet exMissing ''a'' = {JInt 1, JInt 2, JUndefined}"
  "columnValueSet exMissing ''b'' = {JInt 1, JUndefined, JInt 3}"
  by (auto simp: columnValueSet_def exMissing_def getProp_def inheritedMembers_def)

lemma exMissing_ratio: "overlapRatio exMissing ''a'' ''b'' = 2 / 3"
proof -
  have "{JInt 1, JInt 2, JUndefined} \<inter> {JInt 1, JUndefined, JInt 3} = {JInt 1, JUndefined}"
    by auto
  then show ?thesis unfolding overlapRatio_def exMissing_values by simp
qed

lemma exMissing_present:
  "set (presentCells exMissing ''a'') = {JInt 1, JInt 2}"
  "set (presentCells exMissing ''b'') = {JInt 1, JInt 3}"
  by (auto simp: presentCells_def exMissing_def)

lemma exMissing_columns: "an_columns (analyzeDataStructure exEnv exMissing) = [''a'', ''b'']"
  by (simp add: analyzeDataStructure_def exMissing_def objectKeys_def isArrayIndex_def isDigit_def Let_def)

text \<open>
  \<^bold>\<open>C1.\<close>  The detector does not work on the sets of non-null values.  In the table
  \<open>[{a: 1, b: 1}, {a: 2}, {b: 3}]\<close> the non-null values of \<open>a\<close> are 1 and 2, those of \<open>b\<close>
  are 1 and 3, and the ratio of the claim is one half, for which the claim has no
  candidate.  The detector reads the missing cell of each column as \<open>undefined\<close> and
  keeps it as a value of both, so that its ratio is two thirds, and it emits a
  candidate for the pair with confidence two thirds.
\<close>

theorem overlap_counts_missing_cells:
  "set (presentCells exMissing ''a'') = {JInt 1, JInt 2} \<and>
   set (presentCells exMissing ''b'') = {JInt 1, JInt 3} \<and>
   presentOverlapRatio exMissing ''a'' ''b'' = 1 / 2 \<and>
   an_columns (analyzeDataStructure exEnv exMissing) = [''a'', ''b''] \<and>
   map rel_confidence
     (candidatesFor ''a'' ''b''
        (detectRelationships exMissing (an_columns (analyzeDataStructure exEnv exMissing)))) = [2 / 3]"
proof -
  have "{JInt 1, JInt 2} \<inter> {JInt 1, JInt 3} = {JInt 1}"
    by auto
  then have ratio: "presentOverlapRatio exMissing ''a'' ''b'' = 1 / 2"
    unfolding presentOverlapRatio_def exMissing_present by simp
  have "JUndefined \<in> columnValueSet exMissing ''a'' \<inter> columnValueSet exMissing ''b''"
    unfolding exMissing_values by simp
  then have "columnValueSet exMissing ''a'' \<inter> columnValueSet exMissing ''b'' \<noteq> {}"
    by blast
  then have "analyzeColumnRelationship exMissing ''a'' ''b'' =
      Some \<lparr> rel_type = ForeignKey, rel_source = ''a'', rel_target = ''b'', rel_confidence = 2 / 3,
             rel_description = ''Potential foreign key relationship between '' @ ''a'' @ '' and '' @ ''b'' \<rparr>"
    by (simp add: analyzeColumnRelationship_eq exMissing_ratio)
  then have "map rel_confidence (candidatesFor ''a'' ''b'' (detectRelationships exMissing [''a'', ''b''])) = [2 / 3]"
    by (simp add: candidatesFor_def)
  with ratio show ?thesis
    unfolding exMissing_columns by (simp add: exMissing_present)
qed

section \<open>The offline preview\<close>

lemma length_demo_nodes:
  "length (dr_nodes (generateDemoGraphData rnd sd schema rels an)) = min 10 (length sd)"
  by (simp add: generateDemoGraphData_def Let_def min.commute)

lemma properties_demo_nodes:
  "map dn_properties (dr_nodes (generateDemoGraphData rnd sd schema rels an)) = take 10 sd"
  by (simp add: generateDemoGraphData_def Let_def comp_def case_prod_unfold map_snd_enumerate [unfolded comp_def])

lemma id_demo_node:
  "i < length (dr_nodes (generateDemoGraphData rnd sd schema rels an)) \<Longrightarrow>
     dn_id (dr_nodes (generateDemoGraphData rnd sd schema rels an) ! i) = ''node_'' @ showNat i"
  by (simp add: generateDemoGraphData_def Let_def nth_enumerate_eq)

lemma demo_bound: "nat (min 5 (int n - 1)) = min 5 (n - 1)"
  by linarith

lemma demo_edges_eq:
  "dr_edges (generateDemoGraphData rnd sd schema rels an) =
     map (\<lambda>i. \<lparr> de_id = ''edge_'' @ showNat i,
                 de_from = dn_id (dr_nodes (generateDemoGraphData rnd sd schema rels an) ! i),
                 de_to = dn_id (dr_nodes (generateDemoGraphData rnd sd schema rels an) ! (i + 1)),
                 de_label = ''RELATES_TO'',
                 de_width = rnd (length (dr_nodes (generateDemoGraphData rnd sd schema rels an)) + i) * 5 + 1 \<rparr>)
       [0 ..< min 5 (length (dr_nodes (generateDemoGraphData rnd sd schema rels an)) - 1)]"
  unfolding demo_bound [symmetric] by (simp add: generateDemoGraphData_def Let_def)

lemma length_demo_edges:
  "length (dr_edges (generateDemoGraphData rnd sd schema rels an)) =
     min 5 (length (dr_nodes (generateDemoGraphData rnd sd schema rels an)) - 1)"
  by (subst demo_edges_eq) simp

lemma demo_edge_ends:
  assumes "i < length (dr_edges (generateDemoGraphData rnd sd schema rels an))"
  shows "de_from (dr_edges (generateDemoGraphData rnd sd schema rels an) ! i) = ''node_'' @ showNat i \<and>
         de_to (dr_edges (generateDemoGraphData rnd sd schema rels an) ! i) = ''node_'' @ showNat (i + 1)"
proof -
  let ?res = "generateDemoGraphData rnd sd schema rels an"
  have i: "i < min 5 (length (dr_nodes ?res) - 1)"
    using assms by (simp only: length_demo_edges)
  then have lt: "i < length (dr_nodes ?res)" "i + 1 < length (dr_nodes ?res)"
    by linarith+
  have "de_from (dr_edges ?res ! i) = dn_id (dr_nodes ?res ! i) \<and>
        de_to (dr_edges ?res ! i) = dn_id (dr_nodes ?res ! (i + 1))"
    using i by (subst (1 2) demo_edges_eq) simp
  with id_demo_node [OF lt(1)] id_demo_node [OF lt(2)] show ?thesis by simp
qed

text \<open>
  \<^bold>\<open>C2.\<close>  For every non-empty structured dataset, an agent whose initialization found
  the store unreachable returns from \<open>execute\<close> with a result, whatever the store
  path would do: \<open>demoMode\<close> is true, the nodes carry the first \<open>min(10, N)\<close> records,
  so at most 10, the edges are \<open>min(5, nodes - 1)\<close>, so at most 5, edge \<open>i\<close> leads from
  node \<open>i\<close> to node \<open>i + 1\<close>, and the insights are the three fixed ones.
\<close>

theorem demo_mode_bounded_preview:
  assumes "sr_structuredData input = Some structuredData" and "structuredData \<noteq> []"
  shows "\<exists>res. GraphModelingAgent_execute rnd storePath
                  (GraphModelingAgent_initialize False agent) input = Inr (Inl res) \<and>
           dr_demoMode res \<and>
           map dn_properties (dr_nodes res) = take 10 structuredData \<and>
           length (dr_nodes res) = min 10 (length structuredData) \<and>
           length (dr_nodes res) \<le> 10 \<and>
           length (dr_edges res) = min 5 (length (dr_nodes res) - 1) \<and>
           length (dr_edges res) \<le> 5 \<and>
           (\<forall>i < length (dr_edges res).
              de_from (dr_edges res ! i) = ''node_'' @ showNat i \<and>
              de_to (dr_edges res ! i) = ''node_'' @ showNat (i + 1)) \<and>
           dr_insights res = demoInsights \<and> length (dr_insights res) = 3"
proof -
  let ?res = "generateDemoGraphData rnd structuredData (sr_schema input)
                (sr_relationships input) (sr_analysis input)"
  have run: "GraphModelingAgent_execute rnd storePath
               (GraphModelingAgent_initialize False agent) input = Inr (Inl ?res)"
    using assms by (simp add: GraphModelingAgent_execute_def GraphModelingAgent_initialize_def)
  have demo: "dr_demoMode ?res" "dr_insights ?res = demoInsights"
    by (simp_all add: generateDemoGraphData_def Let_def)
  have three: "length demoInsights = 3"
    by (simp add: demoInsights_def)
  show ?thesis
    using run demo three properties_demo_nodes [of rnd structuredData]
      length_demo_nodes [of rnd structuredData] length_demo_edges [of rnd structuredData]
      demo_edge_ends [of _ rnd structuredData]
    by (intro exI [of _ ?res]) simp
qed

theorem demo_mode_bounded_preview_witness:
  "sr_structuredData exInput = Some exManagers \<and> exManagers \<noteq> [] \<and>
   (\<exists>res. GraphModelingAgent_execute exRnd exStorePath
             (GraphModelingAgent_initialize False GraphModelingAgent_new) exInput = Inr (Inl res) \<and>
          dr_demoMode res \<and> map dn_properties (dr_nodes res) = exManagers \<and>
          length (dr_nodes res) = 3 \<and> length (dr_edges res) = 2 \<and> length (dr_insights res) = 3)"
  using demo_mode_bounded_preview [of exInput exManagers exRnd exStorePath GraphModelingAgent_new]
  by (auto simp add: exInput_def exManagers_def)

section \<open>Type inference\<close>

subsection \<open>Numbers and numeric strings pass the number test\<close>

lemma digitChar_isDigit: "d < 10 \<Longrightarrow> isDigit (digitChar d)"
  unfolding isDigit_def digitChar_def by (rule nth_mem) simp

lemma showNat_digits: "showNat n \<noteq> [] \<and> list_all isDigit (showNat n)"
proof (induction n rule: showNat.induct)
  case (1 n)
  show ?case
  proof (cases "n < 10")
    case True
    then show ?thesis by (subst (1 2) showNat.simps) (simp add: digitChar_isDigit)
  next
    case False
    with 1 show ?thesis by (subst (1 2) showNat.simps) (simp add: digitChar_isDigit)
  qed
qed

lemma minus_not_digit: "\<not> isDigit (CHR ''-'')"
  by (simp add: isDigit_def)

lemma hd_digits: "xs \<noteq> [] \<Longrightarrow> list_all isDigit xs \<Longrightarrow> isDigit (hd xs)"
  by (cases xs) auto

lemma not_white_digit: "isDigit c \<Longrightarrow> \<not> isWhite c"
  by (auto simp: isDigit_def isWhite_def)

lemma hd_take: "0 < k \<Longrightarrow> xs \<noteq> [] \<Longrightarrow> take k xs \<noteq> [] \<and> hd (take k xs) = hd xs"
  by (cases xs; cases k) auto

lemma showDecimal_head: "showDecimal m e \<noteq> [] \<and> isDigit (hd (showDecimal m e))"
proof -
  obtain digits expo where st: "stripZeros m e = (digits, expo)"
    by (cases "stripZeros m e")
  let ?s = "showNat digits"
  from showNat_digits [of digits] have ne: "?s \<noteq> []" and d: "isDigit (hd ?s)"
    by (simp_all add: hd_digits)
  have zero: "isDigit (CHR ''0'')" by (simp add: isDigit_def)
  have tk: "0 < k \<Longrightarrow> take k ?s \<noteq> [] \<and> hd (take k ?s) = hd ?s" for k
    using ne hd_take by blast
  show ?thesis
    unfolding showDecimal_def st using ne d zero tk [of 1] tk [of "nat (int (length ?s) + expo)"]
    by (simp add: Let_def)
qed

lemma numberToString_finite:
  "\<exists>c t. numberToString (DFin negative m e) = c # t \<and>
         (isDigit c \<or> (c = CHR ''-'' \<and> t \<noteq> [] \<and> isDigit (hd t)))"
proof (cases "m = 0")
  case True
  then show ?thesis by (simp add: numberToString_def isDigit_def)
next
  case False
  from showDecimal_head [of m e] obtain c t where "showDecimal m e = c # t" "isDigit c"
    by (cases "showDecimal m e") auto
  with False show ?thesis by (simp add: numberToString_def)
qed

lemma isNumeric_JNum: "isNumeric (JNum (DFin negative m e))"
proof -
  obtain c t where s: "numberToString (DFin negative m e) = c # t"
    and c: "isDigit c \<or> (c = CHR ''-'' \<and> t \<noteq> [] \<and> isDigit (hd t))"
    using numberToString_finite [of negative m e] by blast
  show ?thesis
  proof (cases "c = CHR ''-''")
    case True
    with c minus_not_digit obtain d u where "t = d # u" "isDigit d"
      by (cases t) auto
    with s True show ?thesis
      by (simp add: isNumeric_def parseFloatIsNaN_def trimStart_def Let_def isWhite_def)
  next
    case False
    with c have d: "isDigit c" by simp
    then have "\<not> isWhite c" by (rule not_white_digit)
    moreover have "c \<noteq> CHR ''+''" using d by (auto simp: isDigit_def)
    ultimately show ?thesis using s False d
      by (simp add: isNumeric_def parseFloatIsNaN_def trimStart_def Let_def)
  qed
qed

lemma takeWhile_hd: "takeWhile P xs \<noteq> [] \<Longrightarrow> xs \<noteq> [] \<and> P (hd xs)"
  by (cases xs) (auto split: if_splits)

lemma takeWhile_Nil_dropWhile: "takeWhile P xs = [] \<Longrightarrow> dropWhile P xs = xs"
  by (cases xs) (auto split: if_splits)

lemma unsigned_floatStart:
  assumes "strUnsignedDecimalLiteral u = Fin r"
  shows "floatStart u"
proof (cases "takeWhile isDigit u = []")
  case False
  from takeWhile_hd [OF this] show ?thesis by (simp add: floatStart_def)
next
  case True
  note ip = this
  have r1: "dropWhile isDigit u = u" using ip by (rule takeWhile_Nil_dropWhile)
  have inf: "u \<noteq> ''Infinity''" using assms by (auto simp: strUnsignedDecimalLiteral_def)
  show ?thesis
  proof (cases "startsWith u ''.''")
    case True
    have "takeWhile isDigit (tl u) \<noteq> []"
      using assms inf ip r1 True
      by (auto simp: strUnsignedDecimalLiteral_def Let_def split: if_splits)
    from takeWhile_hd [OF this] True show ?thesis by (simp add: floatStart_def)
  next
    case False
    with assms inf ip r1 show ?thesis
      by (auto simp: strUnsignedDecimalLiteral_def Let_def split: if_splits)
  qed
qed

lemma jsNeg_Fin: "jsNeg x = Fin r \<Longrightarrow> \<exists>q. x = Fin q"
  by (cases x) (auto simp: jsNeg_def)

lemma decimal_floatStart:
  assumes "strDecimalLiteral t = Fin r"
  shows "floatStart (if startsWith t ''+'' \<or> startsWith t ''-'' then tl t else t)"
  using assms unsigned_floatStart
  by (auto simp: strDecimalLiteral_def split: if_splits dest!: jsNeg_Fin)

lemma startsWith_single: "startsWith t [c] = (t \<noteq> [] \<and> hd t = c)"
  by (cases t) auto

lemma floatStart_append: "floatStart u \<Longrightarrow> floatStart (u @ ws)"
  by (cases u; cases "tl u") (auto simp: floatStart_def startsWith_single)

lemma signed_floatStart_append:
  assumes "floatStart (if startsWith t ''+'' \<or> startsWith t ''-'' then tl t else t)"
  shows "floatStart (if startsWith (t @ ws) ''+'' \<or> startsWith (t @ ws) ''-'' then tl (t @ ws) else t @ ws)"
proof (cases t)
  case Nil
  with assms show ?thesis by (simp add: floatStart_def)
next
  case (Cons c t')
  with assms floatStart_append [of t' ws] floatStart_append [of "c # t'" ws] show ?thesis
    by (auto simp: startsWith_single split: if_splits)
qed

lemma trim_prefix: "dropWhile isWhite s = trim s @ rev (takeWhile isWhite (rev (dropWhile isWhite s)))"
proof -
  let ?w = "dropWhile isWhite s"
  have "rev (takeWhile isWhite (rev ?w) @ dropWhile isWhite (rev ?w)) = rev (rev ?w)"
    by (simp only: takeWhile_dropWhile_id)
  then have "rev (dropWhile isWhite (rev ?w)) @ rev (takeWhile isWhite (rev ?w)) = ?w"
    by (simp only: rev_append rev_rev_ident)
  then show ?thesis by (simp only: trim_def)
qed

lemma doubleOverflow_Fin: "doubleOverflow x = Fin r \<Longrightarrow> x = Fin r"
  by (cases x) (auto simp: doubleOverflow_def split: if_splits)

lemma startsWith_two: "startsWith t [a, b] \<Longrightarrow> t \<noteq> [] \<and> hd t = a"
  by (cases t; cases "tl t") auto

lemma nonDecimal_head: "nonDecimalIntegerLiteral t \<noteq> NaN \<Longrightarrow> t \<noteq> [] \<and> hd t = CHR ''0''"
  by (auto simp: nonDecimalIntegerLiteral_def Let_def split: if_splits dest: startsWith_two)

lemma finite_string_floatStart:
  assumes "trim s \<noteq> []" and "stringToNumber s = Fin r"
  shows "floatStart (if startsWith (trim s) ''+'' \<or> startsWith (trim s) ''-''
                     then tl (trim s) else trim s)"
proof (cases "nonDecimalIntegerLiteral (trim s) = NaN")
  case True
  with assms have "doubleOverflow (strDecimalLiteral (trim s)) = Fin r"
    by (simp add: stringToNumber_def Let_def)
  then have "strDecimalLiteral (trim s) = Fin r" by (rule doubleOverflow_Fin)
  then show ?thesis by (rule decimal_floatStart)
next
  case False
  from nonDecimal_head [OF this] show ?thesis
    by (auto simp: startsWith_single floatStart_def isDigit_def)
qed

lemma isNumeric_finite_string:
  assumes "trim s \<noteq> []" and "stringToNumber s = Fin r"
  shows "isNumeric (JStr s)"
proof -
  have num: "jsNumber (JStr s) \<noteq> NaN"
    using assms by simp
  have "floatStart (if startsWith (trimStart s) ''+'' \<or> startsWith (trimStart s) ''-''
                    then tl (trimStart s) else trimStart s)"
    unfolding trimStart_def
    by (subst (1 2 3 4) trim_prefix) (rule signed_floatStart_append [OF finite_string_floatStart [OF assms]])
  then have "\<not> parseFloatIsNaN (JStr s)"
    by (simp add: parseFloatIsNaN_def Let_def floatStart_def)
  with num show ?thesis by (simp add: isNumeric_def)
qed

lemma finiteFloat_isNumeric: "finiteFloat v \<Longrightarrow> isNumeric v"
  by (cases v)
    (auto simp: finiteFloat_def isNumeric_JNum isNumeric_finite_string split: jsnum.splits jsdouble.splits)

subsection \<open>Which finite floats pass the boolean test\<close>

lemma toLowerChar_digit: "toLowerChar c = CHR ''0'' \<longleftrightarrow> c = CHR ''0''" "toLowerChar c = CHR ''1'' \<longleftrightarrow> c = CHR ''1''"
  by (auto simp: toLowerChar_def split: option.splits if_splits)

lemma toLowerCase_digit: "toLowerCase x = ''0'' \<longleftrightarrow> x = ''0''" "toLowerCase x = ''1'' \<longleftrightarrow> x = ''1''"
  by (cases x; cases "tl x"; auto simp: toLowerCase_def toLowerChar_digit)+

lemma toLowerChar_letter:
  "toLowerChar c \<in> set ''tfyn'' \<Longrightarrow> c \<in> set ''tfynTFYN''"
  by (auto simp: toLowerChar_def split: option.splits if_splits)

lemma word_head:
  assumes "toLowerCase x \<in> set [''true'', ''false'', ''yes'', ''no'']"
  shows "x \<noteq> [] \<and> hd x \<in> set ''tfynTFYN''"
proof -
  from assms have ne: "x \<noteq> []" by (auto simp: toLowerCase_def)
  with assms have "toLowerChar (hd x) \<in> set ''tfyn''"
    by (cases x) (auto simp: toLowerCase_def)
  from toLowerChar_letter [OF this] ne show ?thesis by simp
qed

lemma letter_not_numeric:
  "c \<in> set ''tfynTFYN'' \<Longrightarrow> \<not> isDigit c \<and> \<not> isWhite c \<and> c \<noteq> CHR ''-'' \<and> c \<noteq> CHR ''+'' \<and> c \<noteq> CHR ''.''"
  by (auto simp: isDigit_def isWhite_def)

lemma isBooleanLike_iff:
  "isBooleanLike v \<longleftrightarrow>
     writtenZeroOrOne v \<or> toLowerCase (jsString v) \<in> set [''true'', ''false'', ''yes'', ''no'']"
  by (auto simp: isBooleanLike_def writtenZeroOrOne_def toLowerCase_digit)

lemma floatStart_head:
  assumes "floatStart (if startsWith t ''+'' \<or> startsWith t ''-'' then tl t else t)"
  shows "t \<noteq> [] \<and> (isDigit (hd t) \<or> hd t = CHR ''-'' \<or> hd t = CHR ''+'' \<or> hd t = CHR ''.'')"
  using assms by (cases t) (auto simp: floatStart_def startsWith_single split: if_splits)

lemma finiteFloat_not_word:
  assumes "finiteFloat v"
  shows "toLowerCase (jsString v) \<notin> set [''true'', ''false'', ''yes'', ''no'']"
proof
  assume "toLowerCase (jsString v) \<in> set [''true'', ''false'', ''yes'', ''no'']"
  from word_head [OF this] have ne: "jsString v \<noteq> []" and hd: "hd (jsString v) \<in> set ''tfynTFYN''"
    by simp_all
  note no = letter_not_numeric [OF hd]
  show False
  proof (cases v)
    case (JNum d)
    with assms obtain negative m e where d: "d = DFin negative m e"
      by (cases d) (auto simp: finiteFloat_def)
    from numberToString_finite [of negative m e] JNum d no show False by auto
  next
    case (JStr s)
    with assms obtain r where fin: "trim s \<noteq> []" "stringToNumber s = Fin r"
      by (auto simp: finiteFloat_def split: jsnum.splits)
    from floatStart_head [OF finite_string_floatStart [OF fin]]
    have t: "trim s \<noteq> []"
      "isDigit (hd (trim s)) \<or> hd (trim s) = CHR ''-'' \<or> hd (trim s) = CHR ''+'' \<or> hd (trim s) = CHR ''.''"
      by simp_all
    from JStr ne no have "dropWhile isWhite s = s" by (cases s) auto
    with trim_prefix [of s] have "s = trim s @ rev (takeWhile isWhite (rev s))" by simp
    with t(1) have "hd s = hd (trim s)" by (metis hd_append2)
    with t(2) no JStr show False by simp
  qed (use assms in \<open>auto simp: finiteFloat_def\<close>)
qed

lemma finiteFloat_boolean: "finiteFloat v \<Longrightarrow> isBooleanLike v = writtenZeroOrOne v"
  using finiteFloat_not_word [of v] by (simp only: isBooleanLike_iff) simp

lemma finiteFloat_not_null:
  "finiteFloat v \<Longrightarrow> v \<noteq> JNull \<and> v \<noteq> JUndefined \<and> v \<noteq> JStr []"
  by (auto simp: finiteFloat_def trim_def)

lemma detectDataType_finiteFloat:
  assumes "values \<noteq> []" and "list_all finiteFloat values"
  shows "detectDataType d u values =
           (if list_all writtenZeroOrOne (take 10 values) then TBoolean else TNumber)"
proof -
  have all: "list_all finiteFloat (take 10 values)"
    using assms(2) by (auto simp: list_all_iff dest: in_set_takeD)
  then have "list_all isNumeric (take 10 values)"
    by (auto simp: list_all_iff finiteFloat_isNumeric)
  moreover have "list_all isBooleanLike (take 10 values) = list_all writtenZeroOrOne (take 10 values)"
    using all by (auto simp: list_all_iff finiteFloat_boolean)
  ultimately show ?thesis
    using assms(1) by (simp add: detectDataType_def Let_def)
qed

lemma map_of_tabulate: "c \<in> set cs \<Longrightarrow> map_of (map (\<lambda>x. (x, f x)) cs) c = Some (f c)"
  by (induction cs) auto

lemma analyzeDataStructure_column:
  assumes "data \<noteq> []" and "c \<in> set (objectKeys (hd data))"
  shows "map_of (an_columnAnalysis (analyzeDataStructure env data)) c =
           Some (analyzeColumn env c
                   (filter (\<lambda>val. val \<noteq> JNull \<and> val \<noteq> JUndefined)
                      (columnEntries (take (min 100 (length data)) data) c)))"
proof -
  from assms(1) obtain r rest where d: "data = r # rest" by (cases data) auto
  then have "take (min 100 (length data)) data = r # take 99 rest"
    by (simp add: min_def take_Cons')
  with assms(2) d show ?thesis
    by (simp add: analyzeDataStructure_def Let_def columnEntries_def map_of_tabulate del: take_Suc_Cons)
qed

text \<open>
  \<^bold>\<open>C3\<close>, with the exception that the order of the tests makes.  For every
  non-empty dataset and every column of its first record whose entries are all finite
  floats, the profiler infers \<open>boolean\<close> when each of the first 10 entries is written
  \<open>0\<close> or \<open>1\<close>, and \<open>number\<close> otherwise; it never infers \<open>string\<close>.
\<close>

theorem finite_float_column_type:
  assumes "data \<noteq> []" and "c \<in> set (objectKeys (hd data))"
    and "list_all finiteFloat (columnEntries data c)"
  shows "\<exists>profile. map_of (an_columnAnalysis (analyzeDataStructure env data)) c = Some profile \<and>
           cp_dataType profile =
             (if list_all writtenZeroOrOne (take 10 (columnEntries data c)) then TBoolean else TNumber) \<and>
           cp_dataType profile \<noteq> TString"
proof -
  let ?sample = "take (min 100 (length data)) data"
  let ?entries = "columnEntries ?sample c"
  have vals: "?entries = take (min 100 (length data)) (columnEntries data c)"
    by (simp add: columnEntries_def take_map)
  have ff: "list_all finiteFloat ?entries"
    using assms(3) unfolding vals by (auto simp: list_all_iff dest: in_set_takeD)
  have keep1: "filter (\<lambda>val. val \<noteq> JNull \<and> val \<noteq> JUndefined) ?entries = ?entries"
    using ff by (auto simp: list_all_iff finiteFloat_not_null intro!: filter_True)
  have keep2: "filter (\<lambda>val. val \<noteq> JNull \<and> val \<noteq> JUndefined \<and> val \<noteq> JStr []) ?entries = ?entries"
    using ff by (auto simp: list_all_iff finiteFloat_not_null intro!: filter_True)
  have ne: "?entries \<noteq> []"
    using assms(1) by (cases data) (simp_all add: columnEntries_def)
  have ten: "take 10 ?entries = take 10 (columnEntries data c)"
    unfolding vals by (simp add: min_def columnEntries_def)
  have "cp_dataType (analyzeColumn env c ?entries) =
          (if list_all writtenZeroOrOne (take 10 (columnEntries data c)) then TBoolean else TNumber)"
    using detectDataType_finiteFloat [OF ne ff] by (simp add: analyzeColumn_def Let_def keep2 ten)
  then show ?thesis
    using analyzeDataStructure_column [OF assms(1,2), of env] by (simp add: keep1)
qed

lemmas number_simps = finiteFloat_def stringToNumber_def trim_def isWhite_def nonDecimalIntegerLiteral_def
  strDecimalLiteral_def strUnsignedDecimalLiteral_def doubleOverflow_def isDigit_def radixValue_def
  digitValue_def Let_def jsNeg_def

lemma ff2:
  "finiteFloat (JStr ''3.14'')" "finiteFloat (JStr ''-1e3'')" "finiteFloat (JStr ''0x1F'')"
  "finiteFloat (JNum (DFin False 25 (- 1)))"
  by (simp_all add: number_simps)

text \<open>
  A column of prices is a number column: the strings \<open>3.14\<close>, \<open>-1e3\<close> and \<open>0x1F\<close> and the
  number cell 2.5.
\<close>

theorem finite_float_column_type_witness:
  "exPrices \<noteq> [] \<and> ''price'' \<in> set (objectKeys (hd exPrices)) \<and>
   list_all finiteFloat (columnEntries exPrices ''price'') \<and>
   map_option cp_dataType (map_of (an_columnAnalysis (analyzeDataStructure exEnv exPrices)) ''price'') = Some TNumber"
  using finite_float_column_type [of exPrices "''price''" exEnv]
  by (auto simp add: exPrices_def columnEntries_def getProp_def objectKeys_def ff2 writtenZeroOrOne_def)

lemma not_index: "k \<noteq> [] \<Longrightarrow> \<not> isDigit (hd k) \<Longrightarrow> \<not> isArrayIndex k"
  by (cases k) (auto simp: isArrayIndex_def)

lemma objectKeys_names: "list_all (\<lambda>k. \<not> isArrayIndex k) (map fst r) \<Longrightarrow> objectKeys r = map fst r"
  by (simp add: objectKeys_def list_all_iff filter_empty_conv)

lemma flag_keys: "objectKeys [(''flag'', v)] = [''flag'']"
  by (rule trans [OF objectKeys_names]) (simp_all add: not_index isDigit_def)

lemmas ex_simps = analyzeDataStructure_def analyzeColumn_def exEnv_def columnEntries_def getProp_def
   Let_def detectDataType_def isBooleanLike_def toLowerCase_def toLowerChar_def jsSet_def
   calculateStatistics_def detectPatterns_def detectPotentialRelationships_def

lemma ff1: "finiteFloat (JStr ''1'')" "finiteFloat (JStr ''0'')"
  by (simp_all add: number_simps)

text \<open>
  Without the exception the statement fails: a column whose cells are all \<open>1\<close> or \<open>0\<close> holds
  finite floats only, and its inferred type is \<open>boolean\<close>, since that test comes first.
\<close>

theorem finite_float_column_type_counterexample:
  "list_all finiteFloat (columnEntries exFlags ''flag'') \<and>
   map_option cp_dataType (map_of (an_columnAnalysis (analyzeDataStructure exEnv exFlags)) ''flag'') = Some TBoolean"
  by (simp add: exFlags_def ex_simps ff1 flag_keys)

subsection \<open>The order of the tests\<close>

lemma detectDataType_precedence:
  "values \<noteq> [] \<Longrightarrow>
     detectDataType d u values = firstMatchingType (typePrecedence d u) (take 10 values)"
  by (simp add: detectDataType_def firstMatchingType_def typePrecedence_def Let_def)

text \<open>
  \<^bold>\<open>C4.\<close>  For every column, when some entry is present (neither \<open>null\<close> nor
  \<open>undefined\<close> nor empty), the inferred type is the first in the order boolean, number,
  date, email, url, phone, id whose test holds for each of the first 10 present
  entries, and \<open>string\<close> when none does; when no entry is present, the type is
  \<open>unknown\<close> and the statistics are empty.  \<open>analyzeColumn\<close> has no operation that
  throws, so it is a total function here.
\<close>

theorem type_precedence_and_unknown:
  "(presentValues values \<noteq> [] \<longrightarrow>
      cp_dataType (analyzeColumn env name values) =
        firstMatchingType (typePrecedence (isValidDate env) (isValidURL env))
          (take 10 (presentValues values))) \<and>
   (presentValues values = [] \<longrightarrow>
      cp_dataType (analyzeColumn env name values) = TUnknown \<and>
      cp_statistics (analyzeColumn env name values) = [])"
proof (cases "presentValues values = []")
  case True
  then show ?thesis
    by (simp add: analyzeColumn_def presentValues_def Let_def detectDataType_def calculateStatistics_def)
next
  case False
  then show ?thesis
    using detectDataType_precedence [of "presentValues values" "isValidDate env" "isValidURL env"]
    by (simp add: analyzeColumn_def presentValues_def Let_def)
qed

lemma isNumeric_ab12: "\<not> isNumeric (JStr ''ab12'')"
  by (simp add: isNumeric_def parseFloatIsNaN_def trimStart_def isWhite_def isDigit_def Let_def)

lemma isBool_ab12: "\<not> isBooleanLike (JStr ''ab12'')"
  by (simp add: isBooleanLike_def toLowerCase_def toLowerChar_def)

lemma isEmail_ab12: "\<not> isValidEmail (JStr ''ab12'')"
  by (simp add: isValidEmail_def emailChar_def isWhite_def Let_def)

lemma isPhone_ab12: "\<not> isValidPhone (JStr ''ab12'')"
  by (simp add: isValidPhone_def isWhite_def Let_def)

lemma isId_ab12: "looksLikeID (JStr ''ab12'')"
  by (simp add: looksLikeID_def Let_def)

theorem type_precedence_and_unknown_witness:
  "presentValues [JNull, JStr [], JUndefined] = [] \<and>
   cp_dataType (analyzeColumn exEnv ''a'' [JNull, JStr [], JUndefined]) = TUnknown \<and>
   cp_statistics (analyzeColumn exEnv ''a'' [JNull, JStr [], JUndefined]) = [] \<and>
   presentValues [JStr ''ab12'', JNull] \<noteq> [] \<and>
   cp_dataType (analyzeColumn exEnv ''a'' [JStr ''ab12'', JNull]) = TId"
  using type_precedence_and_unknown [of "[JNull, JStr [], JUndefined]" exEnv "''a''"]
    type_precedence_and_unknown [of "[JStr ''ab12'', JNull]" exEnv "''a''"]
  by (simp add: presentValues_def firstMatchingType_def typePrecedence_def exEnv_def
        isNumeric_ab12 isBool_ab12 isEmail_ab12 isPhone_ab12 isId_ab12)

subsection \<open>Null counts\<close>

text \<open>
  \<^bold>\<open>C8\<close>, on a column with a \<open>null\<close>.  For a column with the entries \<open>1\<close> and
  \<open>null\<close> the profile reports a null count of 0 and a null percentage of 0, with one
  unique value: the entries that are \<open>null\<close> or \<open>undefined\<close> are removed before the
  column is analysed, so that only empty strings are counted, against the number of
  entries that are left.
\<close>

theorem null_percentage_skips_nulls:
  "map_option (\<lambda>p. (cp_nullCount p, cp_nullPercentage p, cp_uniqueValues p))
     (map_of (an_columnAnalysis (analyzeDataStructure exEnv exNulls)) ''a'') = Some (0, Fin 0, 1)"
  by (simp add: exNulls_def analyzeDataStructure_def analyzeColumn_def objectKeys_def getProp_def Let_def jsSet_def)

section \<open>Orchestration\<close>

lemma runJob_outcome: "snd (runJob ags (newJob jid jobConfig)) = jobOutcome ags jobConfig"
  by (simp add: jobOutcome_def runJob_def newJob_def Let_def split: sum.splits)

lemma runJob_last_id: "j_id (last (fst (runJob ags job))) = j_id job"
  by (simp add: runJob_def Let_def failJob_def completeStep_def pushStep_def split: sum.splits)

lemma runJob_last_config: "j_config (last (fst (runJob ags job))) = j_config job"
  by (simp add: runJob_def Let_def failJob_def completeStep_def pushStep_def split: sum.splits)

lemma processData_outcome: "fst (processData ags jid jobConfig orch) = jobOutcome ags jobConfig"
  using runJob_outcome [of ags jid jobConfig]
  by (auto simp add: processData_def split: prod.splits)

lemma processData_history:
  "\<exists>job. jobHistory (snd (processData ags jid jobConfig orch)) = jobHistory orch @ [job] \<and>
         currentJob (snd (processData ags jid jobConfig orch)) = Some job \<and>
         scheduled (snd (processData ags jid jobConfig orch)) = scheduled orch \<and>
         j_id job = jid \<and> j_config job = jobConfig"
  using runJob_last_id [of ags "newJob jid jobConfig"] runJob_last_config [of ags "newJob jid jobConfig"]
  by (auto simp add: processData_def newJob_def split: prod.splits)

lemma execute_empty:
  "ld_data input = Some [] \<Longrightarrow>
     DataStructuringAgent_execute env input = Inl (Error ''No data provided for structuring'')"
  by (simp add: DataStructuringAgent_execute_def)

text \<open>
  \<^bold>\<open>C5.\<close>  When the loader delivers a dataset with zero rows, the structuring stage
  throws \<open>No data provided for structuring\<close>, \<open>processData\<close> throws the same error, the
  job ends in the history as failed with that message, its structuring step is failed
  with that message, it has no result, and in no state that the job goes through is
  its status \<open>completed\<close>.
\<close>

theorem empty_dataset_fails:
  fixes ags :: "('d, 'm loaded, structuredRow structured, 'g) agents"
  assumes "dataLoader ags (dataSource jobConfig) = Inr loadResult"
    and "ld_data loadResult = Some []"
    and "dataStructuring ags = (\<lambda>input. snd (BaseAgent_process (DataStructuringAgent_execute env) input))"
  shows "DataStructuringAgent_execute env loadResult = Inl (Error ''No data provided for structuring'') \<and>
         fst (processData ags jid jobConfig orch) = Inl (Error ''No data provided for structuring'') \<and>
         (\<exists>job. jobHistory (snd (processData ags jid jobConfig orch)) = jobHistory orch @ [job] \<and>
                currentJob (snd (processData ags jid jobConfig orch)) = Some job \<and>
                j_id job = jid \<and> j_status job = Failed \<and>
                j_error job = Some ''No data provided for structuring'' \<and>
                j_result job = None \<and>
                map (\<lambda>s. (st_name s, st_status s, st_error s)) (j_steps job) =
                  [(''dataLoading'', Completed, None),
                   (''dataStructuring'', Failed, Some ''No data provided for structuring'')]) \<and>
         (\<forall>job \<in> set (fst (runJob ags (newJob jid jobConfig))). j_status job \<noteq> Completed)"
proof -
  let ?msg = "''No data provided for structuring''"
  have ex: "DataStructuringAgent_execute env loadResult = Inl (Error ?msg)"
    using assms(2) by (rule execute_empty)
  then have st: "dataStructuring ags loadResult = Inl (Error ?msg)"
    by (simp add: assms(3) BaseAgent_process_def)
  let ?j1 = "pushStep ''dataLoading'' (newJob jid jobConfig) :: ('d, 'm loaded, structuredRow structured, 'g) job"
  let ?j2 = "completeStep (LoadResult loadResult) ?j1"
  let ?j3 = "pushStep ''dataStructuring'' ?j2"
  have run: "runJob ags (newJob jid jobConfig) =
               ([newJob jid jobConfig, ?j1, ?j2, ?j3, failJob ?msg ?j3], Inl (Error ?msg))"
    using assms(1) st by (simp add: runJob_def Let_def newJob_def)
  have final: "failJob ?msg ?j3 =
      \<lparr> j_id = jid, j_config = jobConfig, j_status = Failed,
        j_steps = [\<lparr> st_name = ''dataLoading'', st_status = Completed,
                      st_result = Some (LoadResult loadResult), st_error = None \<rparr>,
                   \<lparr> st_name = ''dataStructuring'', st_status = Failed,
                      st_result = None, st_error = Some ?msg \<rparr>],
        j_result = None, j_error = Some ?msg \<rparr>"
    by (simp add: failJob_def pushStep_def completeStep_def newJob_def Let_def)
  have statuses: "j_status (newJob jid jobConfig :: ('d, 'm loaded, structuredRow structured, 'g) job) = Started"
    "j_status ?j1 = Started" "j_status ?j2 = Started" "j_status ?j3 = Started"
    by (simp_all add: pushStep_def completeStep_def newJob_def)
  show ?thesis
    using ex statuses
    by (simp add: processData_def run final)
qed

theorem empty_dataset_fails_witness:
  "dataLoader exAgents (dataSource \<lparr> dataSource = ''empty.csv'' \<rparr>) = Inr \<lparr> ld_data = Some [], ld_metadata = () \<rparr> \<and>
   fst (processData exAgents ''job_1'' \<lparr> dataSource = ''empty.csv'' \<rparr> AgentOrchestrator_new) =
     Inl (Error ''No data provided for structuring'') \<and>
   map j_status (jobHistory (snd (processData exAgents ''job_1'' \<lparr> dataSource = ''empty.csv'' \<rparr>
                                    AgentOrchestrator_new))) = [Failed] \<and>
   list_all (\<lambda>job. j_status job \<noteq> Completed)
     (fst (runJob exAgents (newJob ''job_1'' \<lparr> dataSource = ''empty.csv'' \<rparr>)))"
  using empty_dataset_fails [of exAgents "\<lparr> dataSource = ''empty.csv'' \<rparr>"
      "\<lparr> ld_data = Some [], ld_metadata = () \<rparr>" exStructEnv "''job_1''" AgentOrchestrator_new]
  by (auto simp add: exAgents_def AgentOrchestrator_new_def list_all_iff)

subsection \<open>Batches\<close>

lemma successes_Cons:
  "successes ags i (c # cs) =
     (case jobOutcome ags c of Inl err \<Rightarrow> [] | Inr result \<Rightarrow> [(i, result)]) @ successes ags (Suc i) cs"
  by (simp add: successes_def)

lemma failures_Cons:
  "failures ags i (c # cs) =
     (case jobOutcome ags c of Inl err \<Rightarrow> [(i, message err)] | Inr result \<Rightarrow> []) @ failures ags (Suc i) cs"
  by (simp add: failures_def)

lemma batchLoop_eq:
  "\<exists>orch'. batchLoop ags ids i jobConfigs results errors orch =
       ((results @ successes ags i jobConfigs, errors @ failures ags i jobConfigs), orch') \<and>
     map j_config (jobHistory orch') = map j_config (jobHistory orch) @ jobConfigs \<and>
     map j_id (jobHistory orch') = map j_id (jobHistory orch) @ map ids [i ..< i + length jobConfigs]"
proof (induction jobConfigs arbitrary: i results errors orch)
  case Nil
  then show ?case by (simp add: successes_def failures_def)
next
  case (Cons c cs)
  obtain out orch1 where p: "processData ags (ids i) c orch = (out, orch1)"
    by (cases "processData ags (ids i) c orch")
  from processData_outcome [of ags "ids i" c orch] p have out: "out = jobOutcome ags c" by simp
  from processData_history [of ags "ids i" c orch] p obtain job where
    h: "jobHistory orch1 = jobHistory orch @ [job]" "j_id job = ids i" "j_config job = c" by auto
  have upt: "[i ..< i + length (c # cs)] = i # [Suc i ..< Suc i + length cs]"
    using upt_conv_Cons [of i "i + length (c # cs)"] by simp
  show ?case
  proof (cases out)
    case (Inl err)
    from Cons.IH [of "Suc i" results "errors @ [(i, message err)]" orch1] p Inl out h show ?thesis
      unfolding upt by (auto simp add: successes_Cons failures_Cons)
  next
    case (Inr result)
    from Cons.IH [of "Suc i" "results @ [(i, result)]" errors orch1] p Inr out h show ?thesis
      unfolding upt by (auto simp add: successes_Cons failures_Cons)
  qed
qed

lemma length_successes_failures:
  "length (successes ags i jobConfigs) + length (failures ags i jobConfigs) = length jobConfigs"
  by (induction jobConfigs arbitrary: i) (auto simp: successes_Cons failures_Cons successes_def failures_def split: sum.splits)

text \<open>
  \<^bold>\<open>C6.\<close>  \<open>processBatch\<close> runs one job per configuration, in list order, whether or not
  earlier jobs failed: the history grows by the jobs of the configurations in their
  order, the results are the successful jobs with their indices, the errors are the
  failed jobs with their indices and messages, and the summary has \<open>total\<close> the length of
  the input, \<open>successful\<close> the number of results, \<open>failed\<close> the number of errors, the two
  adding up to \<open>total\<close>.  For three configurations of which only the second fails, the
  results are those of indices 0 and 2, the one error is at index 1, and the summary is
  3, 2, 1.
\<close>

theorem batch_runs_every_job:
  "case processBatch ags ids jobConfigs orch of
     (batch, orch') \<Rightarrow>
       b_total batch = length jobConfigs \<and>
       b_successful batch = length (b_results batch) \<and>
       b_failed batch = length (b_errors batch) \<and>
       b_successful batch + b_failed batch = b_total batch \<and>
       b_results batch = successes ags 0 jobConfigs \<and>
       b_errors batch = failures ags 0 jobConfigs \<and>
       map j_config (jobHistory orch') = map j_config (jobHistory orch) @ jobConfigs \<and>
       map j_id (jobHistory orch') = map j_id (jobHistory orch) @ map ids [0 ..< length jobConfigs] \<and>
       (\<forall>first err third.
          length jobConfigs = 3 \<and>
          jobOutcome ags (jobConfigs ! 0) = Inr first \<and>
          jobOutcome ags (jobConfigs ! 1) = Inl err \<and>
          jobOutcome ags (jobConfigs ! 2) = Inr third \<longrightarrow>
          b_results batch = [(0, first), (2, third)] \<and>
          b_errors batch = [(1, message err)] \<and>
          b_total batch = 3 \<and> b_successful batch = 2 \<and> b_failed batch = 1)"
proof -
  from batchLoop_eq [of ags ids 0 jobConfigs "[]" "[]" orch] obtain orch' where
    loop: "batchLoop ags ids 0 jobConfigs [] [] orch =
             ((successes ags 0 jobConfigs, failures ags 0 jobConfigs), orch')"
    and hist: "map j_config (jobHistory orch') = map j_config (jobHistory orch) @ jobConfigs"
      "map j_id (jobHistory orch') = map j_id (jobHistory orch) @ map ids [0 ..< length jobConfigs]"
    by auto
  have three: "successes ags 0 jobConfigs = [(0, first), (2, third)] \<and>
               failures ags 0 jobConfigs = [(1, message err)]"
    if "length jobConfigs = 3" "jobOutcome ags (jobConfigs ! 0) = Inr first"
      "jobOutcome ags (jobConfigs ! 1) = Inl err" "jobOutcome ags (jobConfigs ! 2) = Inr third"
    for first err third
  proof -
    from that(1) obtain a b c where "jobConfigs = [a, b, c]"
      by (cases jobConfigs; cases "tl jobConfigs"; cases "tl (tl jobConfigs)") auto
    with that show ?thesis by (simp add: successes_def failures_def)
  qed
  show ?thesis
    using loop hist length_successes_failures [of ags 0 jobConfigs] three
    by (simp add: processBatch_def) 
qed

lemma exOutcomes:
  "jobOutcome exBatchAgents (exConfigs ! 0) = Inr (''a'', ''a'', ''a'')"
  "jobOutcome exBatchAgents (exConfigs ! 1) = Inl (Error ''Unsupported source type: bad'')"
  "jobOutcome exBatchAgents (exConfigs ! 2) = Inr (''c'', ''c'', ''c'')"
  by (simp_all add: jobOutcome_def runJob_def newJob_def exBatchAgents_def exConfigs_def Let_def)

theorem batch_runs_every_job_witness:
  "length exConfigs = 3 \<and>
   jobOutcome exBatchAgents (exConfigs ! 0) = Inr (''a'', ''a'', ''a'') \<and>
   jobOutcome exBatchAgents (exConfigs ! 1) = Inl (Error ''Unsupported source type: bad'') \<and>
   jobOutcome exBatchAgents (exConfigs ! 2) = Inr (''c'', ''c'', ''c'') \<and>
   b_results (fst (processBatch exBatchAgents exIds exConfigs AgentOrchestrator_new)) =
     [(0, (''a'', ''a'', ''a'')), (2, (''c'', ''c'', ''c''))] \<and>
   b_errors (fst (processBatch exBatchAgents exIds exConfigs AgentOrchestrator_new)) =
     [(1, ''Unsupported source type: bad'')] \<and>
   b_total (fst (processBatch exBatchAgents exIds exConfigs AgentOrchestrator_new)) = 3 \<and>
   b_successful (fst (processBatch exBatchAgents exIds exConfigs AgentOrchestrator_new)) = 2 \<and>
   b_failed (fst (processBatch exBatchAgents exIds exConfigs AgentOrchestrator_new)) = 1"
proof -
  have len: "length exConfigs = 3" by (simp add: exConfigs_def)
  from batch_runs_every_job [where ags = exBatchAgents and ids = exIds and jobConfigs = exConfigs
      and orch = AgentOrchestrator_new] len exOutcomes
  have "b_results (fst (processBatch exBatchAgents exIds exConfigs AgentOrchestrator_new)) =
          [(0, (''a'', ''a'', ''a'')), (2, (''c'', ''c'', ''c''))] \<and>
        b_errors (fst (processBatch exBatchAgents exIds exConfigs AgentOrchestrator_new)) =
          [(1, message (Error ''Unsupported source type: bad''))] \<and>
        b_total (fst (processBatch exBatchAgents exIds exConfigs AgentOrchestrator_new)) = 3 \<and>
        b_successful (fst (processBatch exBatchAgents exIds exConfigs AgentOrchestrator_new)) = 2 \<and>
        b_failed (fst (processBatch exBatchAgents exIds exConfigs AgentOrchestrator_new)) = 1"
    unfolding case_prod_unfold by blast
  with len exOutcomes show ?thesis by simp
qed

subsection \<open>Asynchronous submission\<close>

text \<open>
  \<^bold>\<open>C10.\<close>  \<open>processDataAsync\<close> returns the identifier of the job that is current when it
  is called and only queues the work: the history and the current job are unchanged.
  On a fresh orchestrator it returns nothing; after an earlier job it returns that
  job's identifier; the job of the submitted configuration is created when the queued
  callback runs, under the identifier generated then.
\<close>

theorem async_returns_current_id:
  "fst (processDataAsync jobConfig orch) = map_option j_id (currentJob orch) \<and>
   jobHistory (snd (processDataAsync jobConfig orch)) = jobHistory orch \<and>
   currentJob (snd (processDataAsync jobConfig orch)) = currentJob orch \<and>
   scheduled (snd (processDataAsync jobConfig orch)) = scheduled orch @ [jobConfig] \<and>
   fst (processDataAsync jobConfig (AgentOrchestrator_new :: ('d, 'l, 's, 'g) orchestrator)) = None \<and>
   fst (processDataAsync jobConfig (snd (processData ags previous earlier orch))) = Some previous \<and>
   (\<exists>job. jobHistory (runScheduled ags jid (snd (processDataAsync jobConfig (orch \<lparr> scheduled := [] \<rparr>)))) =
            jobHistory orch @ [job] \<and>
          currentJob (runScheduled ags jid (snd (processDataAsync jobConfig (orch \<lparr> scheduled := [] \<rparr>)))) =
            Some job \<and>
          j_id job = jid \<and> j_config job = jobConfig)"
proof -
  have a: "fst (processDataAsync jobConfig (snd (processData ags previous earlier orch))) = Some previous"
    using processData_history [of ags previous earlier orch]
    by (auto simp add: processDataAsync_def)
  have b: "\<exists>job. jobHistory (runScheduled ags jid (snd (processDataAsync jobConfig (orch \<lparr> scheduled := [] \<rparr>)))) =
            jobHistory orch @ [job] \<and>
          currentJob (runScheduled ags jid (snd (processDataAsync jobConfig (orch \<lparr> scheduled := [] \<rparr>)))) =
            Some job \<and>
          j_id job = jid \<and> j_config job = jobConfig"
    using processData_history [of ags jid jobConfig "orch \<lparr> scheduled := [] \<rparr>"]
    by (auto simp add: processDataAsync_def runScheduled_def)
  show ?thesis
    using a b by (simp add: processDataAsync_def AgentOrchestrator_new_def)
qed

theorem async_returns_current_id_witness:
  "fst (processDataAsync \<lparr> dataSource = ''a'' \<rparr>
          (AgentOrchestrator_new :: (string, string, string, string) orchestrator)) = None \<and>
   fst (processDataAsync \<lparr> dataSource = ''c'' \<rparr>
          (snd (processData exBatchAgents ''job_1'' \<lparr> dataSource = ''a'' \<rparr> AgentOrchestrator_new))) =
     Some ''job_1''"
  using async_returns_current_id [where jobConfig = "\<lparr> dataSource = ''c'' \<rparr>"
      and orch = "AgentOrchestrator_new :: (string, string, string, string) orchestrator"
      and ags = exBatchAgents and previous = "''job_1''" and earlier = "\<lparr> dataSource = ''a'' \<rparr>"]
  by (simp add: processDataAsync_def AgentOrchestrator_new_def)

section \<open>Compiling and loading the graph model\<close>

text \<open>
  \<^bold>\<open>C7.\<close>  Compiling the graph model a second time, from the state the first run left or
  from any other, on the same schema, relationships and analysis, yields the same
  model: the node type names are the entity names, the node properties and the
  uniqueness constraints follow the entity properties, the relationship type names
  are generated from the upper-cased source and target columns, and the model's own
  constraint and index lists are empty.
\<close>

theorem graph_model_deterministic:
  "(case createGraphModel logged schema relationships analysis of
      (model, logged') \<Rightarrow>
        fst (createGraphModel logged' schema relationships analysis) = model \<and>
        fst (createGraphModel other schema relationships analysis) = model \<and>
        map nt_name (gm_nodeTypes model) = map e_name (s_entities schema) \<and>
        map (\<lambda>t. map np_name (nt_properties t)) (gm_nodeTypes model) =
          map (\<lambda>e. map p_name (e_properties e)) (s_entities schema) \<and>
        map (\<lambda>t. map c_property (nt_constraints t)) (gm_nodeTypes model) =
          map (\<lambda>e. map p_name (filter p_unique (e_properties e))) (s_entities schema) \<and>
        map rt_name (gm_relationshipTypes model) =
          map (\<lambda>r. ''RELATES_TO_'' @ toUpperCase (rel_source r) @ ''_'' @ toUpperCase (rel_target r))
            relationships @
          map (\<lambda>t. ''RELATED_TO_'' @ toUpperCase (rt_source t) @ ''_'' @ toUpperCase (rt_target t))
            (detectAdditionalRelationships analysis) \<and>
        gm_constraints model = [] \<and> gm_indexes model = [])"
proof -
  have inner: "map rt_name (additionalInner c cs) =
         map (\<lambda>t. ''RELATED_TO_'' @ toUpperCase (rt_source t) @ ''_'' @ toUpperCase (rt_target t))
           (additionalInner c cs)" for c cs
    by (induction cs) auto
  have outer: "map rt_name (additionalOuter cs) =
         map (\<lambda>t. ''RELATED_TO_'' @ toUpperCase (rt_source t) @ ''_'' @ toUpperCase (rt_target t))
           (additionalOuter cs)" for cs
    by (induction cs) (auto simp: inner)
  show ?thesis
    using outer [of "an_columns analysis"]
    by (simp add: createGraphModel_def Let_def comp_def generateRelationshipName_def
          detectAdditionalRelationships_def)
qed

theorem graph_model_deterministic_witness:
  "map rt_name (gm_relationshipTypes (fst (createGraphModel [] exSchema
       (detectRelationships exManagers [''id'', ''mgr'']) exAnalysis))) =
     map (\<lambda>r. ''RELATES_TO_'' @ toUpperCase (rel_source r) @ ''_'' @ toUpperCase (rel_target r))
       (detectRelationships exManagers [''id'', ''mgr'']) @
     map (\<lambda>t. ''RELATED_TO_'' @ toUpperCase (rt_source t) @ ''_'' @ toUpperCase (rt_target t))
       (detectAdditionalRelationships exAnalysis) \<and>
   fst (createGraphModel [''Creating graph model from schema''] exSchema
          (detectRelationships exManagers [''id'', ''mgr'']) exAnalysis) =
   fst (createGraphModel [] exSchema (detectRelationships exManagers [''id'', ''mgr'']) exAnalysis)"
  using graph_model_deterministic [where logged = "[]" and schema = exSchema
      and relationships = "detectRelationships exManagers [''id'', ''mgr'']" and analysis = exAnalysis
      and other = "[''Creating graph model from schema'']"]
  by (simp add: case_prod_unfold)

lemma analyze_foreign_key:
  "analyzeColumnRelationship data c1 c2 = Some r \<Longrightarrow> rel_type r = ForeignKey"
  by (auto simp: analyzeColumnRelationship_def Let_def split: if_splits)

lemma detectInner_foreign_key: "r \<in> set (detectInner data c cs) \<Longrightarrow> rel_type r = ForeignKey"
  by (induction cs) (auto split: option.splits dest: analyze_foreign_key)

lemma detectRelationships_foreign_key:
  "r \<in> set (detectRelationships data cs) \<Longrightarrow> rel_type r = ForeignKey"
  by (induction cs) (auto dest: detectInner_foreign_key)

lemma additionalInner_semantic: "t \<in> set (additionalInner c cs) \<Longrightarrow> rt_type t = Semantic"
  by (induction cs) (auto split: if_splits)

lemma additionalOuter_semantic: "t \<in> set (additionalOuter cs) \<Longrightarrow> rt_type t = Semantic"
  by (induction cs) (auto dest: additionalInner_semantic)

lemma compiled_types:
  assumes "t \<in> set (gm_relationshipTypes (fst (createGraphModel logged schema relationships analysis)))"
  shows "(\<exists>r \<in> set relationships. rt_type t = rel_type r) \<or> rt_type t = Semantic"
  using assms
  by (auto simp: createGraphModel_def Let_def detectAdditionalRelationships_def
        dest: additionalOuter_semantic)

lemma loadRelationshipTypes_agree:
  assumes "agreeOnForeignKeys run run'"
    and "\<forall>t \<in> set ts. rt_type t = ForeignKey \<or> rt_type t = Semantic"
  shows "loadRelationshipTypes run rows ts n db = loadRelationshipTypes run' rows ts n db"
  using assms(2)
proof (induction ts arbitrary: n db)
  case Nil
  then show ?case by simp
next
  case (Cons t ts)
  have fk: "createForeignKeyRelationships run rows t db = createForeignKeyRelationships run' rows t db"
    using assms(1) by (simp add: createForeignKeyRelationships_def agreeOnForeignKeys_def Let_def)
  from Cons.prems have rest: "\<forall>t \<in> set ts. rt_type t = ForeignKey \<or> rt_type t = Semantic"
    and t: "rt_type t = ForeignKey \<or> rt_type t = Semantic" by simp_all
  from t show ?case
  proof
    assume "rt_type t = ForeignKey"
    then show ?thesis
      using Cons.IH [OF rest] by (simp add: fk split: prod.splits sum.splits)
  next
    assume "rt_type t = Semantic"
    then show ?thesis
      using Cons.IH [OF rest] by simp
  qed
qed

lemma schema_relationships:
  "s_relationships (generateSchemaWithLLM answer analysis relationships) =
     relationships @ llmRelationships answer"
  by (cases answer)
    (simp_all add: generateSchemaWithLLM_def parseLLMSchemaResponse_def mergeSchemas_def
       enhanceSchemaWithLLMInsights_def generateSchema_def llmRelationships_def Let_def)

lemma execute_relationships:
  assumes "DataStructuringAgent_execute env input = Inr out"
  shows "\<exists>data. sr_relationships out = detectRelationships data (an_columns (sr_analysis out)) \<and>
           s_relationships (sr_schema out) = sr_relationships out @ llmRelationships (se_llmAnswer env)"
  using assms
  by (auto simp: DataStructuringAgent_execute_def Let_def schema_relationships
        split: option.splits if_splits sum.splits)

lemma exManagers_detect:
  "detectRelationships exManagers [''id'', ''mgr''] =
     [\<lparr> rel_type = ForeignKey, rel_source = ''id'', rel_target = ''mgr'', rel_confidence = 1,
        rel_description = ''Potential foreign key relationship between id and mgr'' \<rparr>]"
proof -
  have "JInt 1 \<in> columnValueSet exManagers ''id'' \<inter> columnValueSet exManagers ''mgr''"
    by (auto simp: columnValueSet_def exManagers_def getProp_def)
  then have "columnValueSet exManagers ''id'' \<inter> columnValueSet exManagers ''mgr'' \<noteq> {}"
    by blast
  then show ?thesis
    by (simp add: analyzeColumnRelationship_eq exManagers_ratio)
qed

lemma an_columns_eq:
  "an_columns (analyzeDataStructure env (r # rest)) = objectKeys r"
  by (simp add: analyzeDataStructure_def Let_def min_def take_Cons')

lemma exManagers_columns: "an_columns (analyzeDataStructure env exManagers) = [''id'', ''mgr'']"
  unfolding exManagers_def
  by (simp only: an_columns_eq, rule trans [OF objectKeys_names]) (simp_all add: not_index isDigit_def)

lemma exLlmExecute:
  "\<exists>out. DataStructuringAgent_execute exLlmEnv exLoaded = Inr out \<and>
         sr_relationships out = detectRelationships exManagers [''id'', ''mgr''] \<and>
         s_relationships (sr_schema out) =
           detectRelationships exManagers [''id'', ''mgr''] @
           [\<lparr> rel_type = Hierarchical, rel_source = ''mgr'', rel_target = ''id'',
               rel_confidence = 1, rel_description = ''reports to'' \<rparr>] \<and>
         an_columns (sr_analysis out) = [''id'', ''mgr'']"
proof -
  have ne: "length exManagers \<noteq> 0" by (simp add: exManagers_def)
  have llm: "llmRelationships (Parsed exLlmSchema) =
      [\<lparr> rel_type = Hierarchical, rel_source = ''mgr'', rel_target = ''id'',
          rel_confidence = 1, rel_description = ''reports to'' \<rparr>]"
    by (simp add: llmRelationships_def exLlmSchema_def)
  show ?thesis
    using ne
    by (simp add: DataStructuringAgent_execute_def exLoaded_def exLlmEnv_def exStructEnv_def Let_def
          exManagers_columns schema_relationships llm)
qed

lemma exStores_agree: "agreeOnForeignKeys exStoreA exStoreB"
  by (simp add: agreeOnForeignKeys_def exStoreA_def exStoreB_def)

text \<open>
  \<^bold>\<open>C9\<close> fails for the relationships of the schema.  When the language model answers
  with a schema that names a hierarchical relationship, the schema of the result
  holds it after the detected foreign key, while the top-level list holds the
  foreign key alone.
\<close>

theorem schema_relationships_counterexample:
  "schemaRelationshipTypes (DataStructuringAgent_execute exLlmEnv exLoaded) =
     Some [ForeignKey, Hierarchical] \<and>
   handedRelationshipTypes (DataStructuringAgent_execute exLlmEnv exLoaded) = Some [ForeignKey]"
proof -
  from exLlmExecute obtain out where
    "DataStructuringAgent_execute exLlmEnv exLoaded = Inr out"
    "sr_relationships out = detectRelationships exManagers [''id'', ''mgr'']"
    "s_relationships (sr_schema out) =
       detectRelationships exManagers [''id'', ''mgr''] @
       [\<lparr> rel_type = Hierarchical, rel_source = ''mgr'', rel_target = ''id'',
           rel_confidence = 1, rel_description = ''reports to'' \<rparr>]"
    by blast
  then show ?thesis
    unfolding exManagers_detect
    by (simp add: schemaRelationshipTypes_def handedRelationshipTypes_def)
qed

text \<open>
  \<^bold>\<open>C9\<close>, for the list that the graph model is compiled from.  Every relationship
  that \<open>detectRelationships\<close> produces has type \<open>foreign_key\<close>, and so has every
  relationship in the top-level list of a result of the structuring stage.  The
  relationships of the schema of the result are those of the top-level list followed
  by the ones that the answer of the language model supplies; they are all of type
  \<open>foreign_key\<close> exactly when the supplied ones are.  The hierarchical and temporal
  candidates, with confidences 0.9 and 0.7, are potential relationships of a column,
  a record without source and target.  The graph model is compiled from the top-level
  list: each of its relationship types is \<open>foreign_key\<close> or \<open>semantic\<close>, and loading
  its relationships does not depend on how the store answers hierarchical and
  temporal statements, so that those branches are not reached.  The same holds for
  the model compiled from any output of the detector.
\<close>

theorem handed_relationships_are_foreign_key:
  "(\<forall>r \<in> set (detectRelationships data columns). rel_type r = ForeignKey) \<and>
   (\<forall>out. DataStructuringAgent_execute env input = Inr out \<longrightarrow>
      (\<forall>r \<in> set (sr_relationships out). rel_type r = ForeignKey) \<and>
      s_relationships (sr_schema out) = sr_relationships out @ llmRelationships (se_llmAnswer env) \<and>
      ((\<forall>r \<in> set (s_relationships (sr_schema out)). rel_type r = ForeignKey) \<longleftrightarrow>
       (\<forall>r \<in> set (llmRelationships (se_llmAnswer env)). rel_type r = ForeignKey)) \<and>
      (\<forall>t \<in> set (gm_relationshipTypes
                    (fst (createGraphModel logged (sr_schema out) (sr_relationships out) (sr_analysis out)))).
         rt_type t = ForeignKey \<or> rt_type t = Semantic) \<and>
      (agreeOnForeignKeys run run' \<longrightarrow>
         loadRelationships run rows
           (fst (createGraphModel logged (sr_schema out) (sr_relationships out) (sr_analysis out))) db =
         loadRelationships run' rows
           (fst (createGraphModel logged (sr_schema out) (sr_relationships out) (sr_analysis out))) db)) \<and>
   (\<forall>p \<in> set (detectPotentialRelationships name entries dataType).
      (pr_type p = Hierarchical \<longrightarrow> pr_confidence p = 9 / 10) \<and>
      (pr_type p = Temporal \<longrightarrow> pr_confidence p = 7 / 10)) \<and>
   (\<forall>t \<in> set (gm_relationshipTypes
                 (fst (createGraphModel logged schema (detectRelationships data columns) analysis))).
      rt_type t = ForeignKey \<or> rt_type t = Semantic) \<and>
   (agreeOnForeignKeys run run' \<longrightarrow>
      loadRelationships run rows
        (fst (createGraphModel logged schema (detectRelationships data columns) analysis)) db =
      loadRelationships run' rows
        (fst (createGraphModel logged schema (detectRelationships data columns) analysis)) db)"
proof -
  have a: "\<forall>r \<in> set (detectRelationships d cs). rel_type r = ForeignKey" for d cs
    by (auto dest: detectRelationships_foreign_key)
  have d: "\<forall>t \<in> set (gm_relationshipTypes
                 (fst (createGraphModel logged sch (detectRelationships d cs) an))).
      rt_type t = ForeignKey \<or> rt_type t = Semantic" for sch d cs an
    using compiled_types [of _ logged sch "detectRelationships d cs" an] a
    by fastforce
  have e: "loadRelationships run rows
        (fst (createGraphModel logged sch (detectRelationships d cs) an)) db =
      loadRelationships run' rows
        (fst (createGraphModel logged sch (detectRelationships d cs) an)) db"
    if "agreeOnForeignKeys run run'" for sch d cs an
    unfolding loadRelationships_def by (rule loadRelationshipTypes_agree [OF that d])
  have b: "(\<forall>r \<in> set (sr_relationships out). rel_type r = ForeignKey) \<and>
      s_relationships (sr_schema out) = sr_relationships out @ llmRelationships (se_llmAnswer env) \<and>
      ((\<forall>r \<in> set (s_relationships (sr_schema out)). rel_type r = ForeignKey) \<longleftrightarrow>
       (\<forall>r \<in> set (llmRelationships (se_llmAnswer env)). rel_type r = ForeignKey)) \<and>
      (\<forall>t \<in> set (gm_relationshipTypes
                    (fst (createGraphModel logged (sr_schema out) (sr_relationships out) (sr_analysis out)))).
         rt_type t = ForeignKey \<or> rt_type t = Semantic) \<and>
      (agreeOnForeignKeys run run' \<longrightarrow>
         loadRelationships run rows
           (fst (createGraphModel logged (sr_schema out) (sr_relationships out) (sr_analysis out))) db =
         loadRelationships run' rows
           (fst (createGraphModel logged (sr_schema out) (sr_relationships out) (sr_analysis out))) db)"
    if "DataStructuringAgent_execute env input = Inr out" for out
  proof -
    from execute_relationships [OF that] obtain cleaned where
      rels: "sr_relationships out = detectRelationships cleaned (an_columns (sr_analysis out))"
      and sch: "s_relationships (sr_schema out) = sr_relationships out @ llmRelationships (se_llmAnswer env)"
      by blast
    have fk: "\<forall>r \<in> set (sr_relationships out). rel_type r = ForeignKey"
      unfolding rels by (rule a)
    have iff: "(\<forall>r \<in> set (s_relationships (sr_schema out)). rel_type r = ForeignKey) \<longleftrightarrow>
       (\<forall>r \<in> set (llmRelationships (se_llmAnswer env)). rel_type r = ForeignKey)"
      unfolding sch using fk by auto
    from fk sch iff d [of "sr_schema out" cleaned "an_columns (sr_analysis out)" "sr_analysis out"]
      e [of "sr_schema out" cleaned "an_columns (sr_analysis out)" "sr_analysis out"]
    show ?thesis unfolding rels [symmetric] by blast
  qed
  have c: "\<forall>p \<in> set (detectPotentialRelationships name entries dataType).
      (pr_type p = Hierarchical \<longrightarrow> pr_confidence p = 9 / 10) \<and>
      (pr_type p = Temporal \<longrightarrow> pr_confidence p = 7 / 10)"
    by (auto simp: detectPotentialRelationships_def split: if_splits)
  from a b c d [of schema data columns analysis] e [of schema data columns analysis]
  show ?thesis by blast
qed

text \<open>
  The employees table, with the answer of the language model that names a
  hierarchical relationship: the top-level list and the compiled model hold the
  detected foreign key alone, the schema holds both.
\<close>

theorem handed_relationships_are_foreign_key_witness:
  "map rel_type (detectRelationships exManagers [''id'', ''mgr'']) = [ForeignKey] \<and>
   (\<exists>out. DataStructuringAgent_execute exLlmEnv exLoaded = Inr out \<and>
          map rel_type (sr_relationships out) = [ForeignKey] \<and>
          map rel_type (s_relationships (sr_schema out)) = [ForeignKey, Hierarchical] \<and>
          map rel_type (llmRelationships (se_llmAnswer exLlmEnv)) = [Hierarchical] \<and>
          map rt_type (gm_relationshipTypes
            (fst (createGraphModel [] (sr_schema out) (sr_relationships out) (sr_analysis out)))) =
            [ForeignKey] \<and>
          loadRelationships exStoreA exManagers
            (fst (createGraphModel [] (sr_schema out) (sr_relationships out) (sr_analysis out))) () =
          loadRelationships exStoreB exManagers
            (fst (createGraphModel [] (sr_schema out) (sr_relationships out) (sr_analysis out))) ()) \<and>
   map pr_type (detectPotentialRelationships ''parent_date'' [] TString) = [Hierarchical, Temporal] \<and>
   map pr_confidence (detectPotentialRelationships ''parent_date'' [] TString) = [9 / 10, 7 / 10] \<and>
   map rt_type (gm_relationshipTypes
     (fst (createGraphModel [] exSchema (detectRelationships exManagers [''id'', ''mgr'']) exAnalysis))) =
     [ForeignKey] \<and>
   agreeOnForeignKeys exStoreA exStoreB \<and>
   loadRelationships exStoreA exManagers
     (fst (createGraphModel [] exSchema (detectRelationships exManagers [''id'', ''mgr'']) exAnalysis)) () =
   loadRelationships exStoreB exManagers
     (fst (createGraphModel [] exSchema (detectRelationships exManagers [''id'', ''mgr'']) exAnalysis)) ()"
proof -
  note inst = handed_relationships_are_foreign_key [where data = exManagers and columns = "[''id'', ''mgr'']"
      and env = exLlmEnv and input = exLoaded and name = "''parent_date''" and entries = "[]"
      and dataType = TString and logged = "[]" and schema = exSchema and analysis = exAnalysis
      and run = exStoreA and run' = exStoreB and rows = exManagers and db = "()"]
  from exLlmExecute obtain out where
    out: "DataStructuringAgent_execute exLlmEnv exLoaded = Inr out"
      "sr_relationships out = detectRelationships exManagers [''id'', ''mgr'']"
      "s_relationships (sr_schema out) =
         detectRelationships exManagers [''id'', ''mgr''] @
         [\<lparr> rel_type = Hierarchical, rel_source = ''mgr'', rel_target = ''id'',
             rel_confidence = 1, rel_description = ''reports to'' \<rparr>]"
      "an_columns (sr_analysis out) = [''id'', ''mgr'']" by blast
  note forOut = inst [THEN conjunct2, THEN conjunct1, rule_format, OF out(1)]
  have handed: "map rel_type (sr_relationships out) = [ForeignKey]"
    unfolding out(2) exManagers_detect by simp
  have inSchema: "map rel_type (s_relationships (sr_schema out)) = [ForeignKey, Hierarchical]"
    unfolding out(3) exManagers_detect by simp
  have supplied: "map rel_type (llmRelationships (se_llmAnswer exLlmEnv)) = [Hierarchical]"
    by (simp add: llmRelationships_def exLlmEnv_def exLlmSchema_def)
  have compiled: "map rt_type (gm_relationshipTypes
            (fst (createGraphModel [] (sr_schema out) (sr_relationships out) (sr_analysis out)))) =
            [ForeignKey]"
    unfolding out(2) exManagers_detect
    by (simp add: createGraphModel_def Let_def detectAdditionalRelationships_def out(4)
          areColumnsRelated_def toLowerCase_def toLowerChar_def)
  note loaded = forOut [THEN conjunct2, THEN conjunct2, THEN conjunct2, THEN conjunct2,
      rule_format, OF exStores_agree]
  from out(1) handed inSchema supplied compiled loaded have ex:
    "\<exists>out. DataStructuringAgent_execute exLlmEnv exLoaded = Inr out \<and>
          map rel_type (sr_relationships out) = [ForeignKey] \<and>
          map rel_type (s_relationships (sr_schema out)) = [ForeignKey, Hierarchical] \<and>
          map rel_type (llmRelationships (se_llmAnswer exLlmEnv)) = [Hierarchical] \<and>
          map rt_type (gm_relationshipTypes
            (fst (createGraphModel [] (sr_schema out) (sr_relationships out) (sr_analysis out)))) =
            [ForeignKey] \<and>
          loadRelationships exStoreA exManagers
            (fst (createGraphModel [] (sr_schema out) (sr_relationships out) (sr_analysis out))) () =
          loadRelationships exStoreB exManagers
            (fst (createGraphModel [] (sr_schema out) (sr_relationships out) (sr_analysis out))) ()"
    by (intro exI [of _ out] conjI)
  have pot: "map pr_type (detectPotentialRelationships ''parent_date'' [] TString) = [Hierarchical, Temporal]"
    "map pr_confidence (detectPotentialRelationships ''parent_date'' [] TString) = [9 / 10, 7 / 10]"
    by (simp_all add: detectPotentialRelationships_def toLowerCase_def toLowerChar_def)
  have types: "map rt_type (gm_relationshipTypes
     (fst (createGraphModel [] exSchema (detectRelationships exManagers [''id'', ''mgr'']) exAnalysis))) =
     [ForeignKey]"
    unfolding exManagers_detect
    by (simp add: createGraphModel_def Let_def detectAdditionalRelationships_def
          exAnalysis_def areColumnsRelated_def toLowerCase_def toLowerChar_def)
  note direct = inst [THEN conjunct2, THEN conjunct2, THEN conjunct2, THEN conjunct2,
      rule_format, OF exStores_agree]
  have detected: "map rel_type (detectRelationships exManagers [''id'', ''mgr'']) = [ForeignKey]"
    unfolding exManagers_detect by simp
  from detected ex pot(1) pot(2) types exStores_agree direct show ?thesis
    by (intro conjI)
qed

end
